theory Spec2Isabelle
  imports Main "HOL-Library.Word" "HOL-Library.While_Combinator"
begin

section \<open>Data model of the compact gluing-permutation searcher\<close>

text \<open>
  The embedding follows \<^verbatim>\<open>engine/census/compact.cpp\<close> and
  \<^verbatim>\<open>engine/census/collapsechain.cpp\<close>.  A tetrahedron face is the pair
  (tetrahedron, face number); C++ \<^verbatim>\<open>int\<close> indices are \<^typ>\<open>int\<close>, the
  \<^verbatim>\<open>unsigned\<close> counters are 32-bit words (so that \<^verbatim>\<open>-=\<close> wraps as in C++),
  \<^verbatim>\<open>bdryEdges\<close> is an unsigned char.  The twist flags are chars that only ever
  hold 0 or 1 (every write is an exclusive-or of such values, and \<^verbatim>\<open>readData\<close>
  rejects anything else); they are booleans here, and a two-element array indexed by
  such a flag is a function on \<^typ>\<open>bool\<close> (\<open>False\<close> is index 0).
  Arrays are stores from indices to values.
\<close>

datatype NTetFace = NTetFace (tet: int) (face: int)

type_synonym NPerm = "int \<Rightarrow> int"

record UFNode =
  parent :: int
  rank :: "32 word"
  twistUp :: bool
  hadEqualRank :: bool

record TetVertexState = UFNode +
  bdry :: "32 word"
  bdryEdges :: "8 word"
  bdryNext :: "bool \<Rightarrow> int"
  bdryTwist :: "bool \<Rightarrow> bool"
  bdryNextOld :: "bool \<Rightarrow> int"
  bdryTwistOld :: "bool \<Rightarrow> bool"

record TetEdgeState = UFNode +
  size' :: "32 word"
  bounded :: bool

record NCompactSearcher =
  nTets :: nat
  pairing :: "NTetFace \<Rightarrow> NTetFace"
  orientableOnly :: bool
  started :: bool
  orientation :: "int \<Rightarrow> int"
  order :: "int \<Rightarrow> NTetFace"
  orderSize :: int
  orderElt :: int
  permIndices :: "NTetFace \<Rightarrow> int"
  nVertexClasses :: "32 word"
  vertexState :: "int \<Rightarrow> TetVertexState"
  vertexStateChanged :: "int \<Rightarrow> int"
  nEdgeClasses :: "32 word"
  edgeState :: "int \<Rightarrow> TetEdgeState"
  edgeStateChanged :: "int \<Rightarrow> int"

text \<open>
  The members of the base class \<^verbatim>\<open>NGluingPermSearcher\<close> and the tables of
  \<^verbatim>\<open>NPerm\<close> and \<^verbatim>\<open>NEdge\<close> that \<^verbatim>\<open>compact.cpp\<close> uses are declared in headers
  outside the sources at hand.  They are parameters of the model: \<open>gluingPermOf\<close> maps
  a face, its partner and the face's permutation index to the gluing permutation,
  \<open>sign\<close> is \<^verbatim>\<open>NPerm::sign()\<close>, \<open>invS3\<close> is \<^verbatim>\<open>NPerm::invS3\<close>, \<open>isCanonical\<close> is the
  canonicity test of the searcher, \<open>edgeNumber\<close> and \<open>edgeVertex\<close>
  are the tables of \<^verbatim>\<open>NEdge\<close>, and \<open>vtxBdryNext\<close> is the inline helper of that name,
  which returns the arrays \<^verbatim>\<open>next[2]\<close> and \<^verbatim>\<open>twist[2]\<close> for a vertex, given the
  searcher, \<^verbatim>\<open>vertexID\<close>, \<^verbatim>\<open>tet\<close>, \<^verbatim>\<open>vertex\<close> and \<^verbatim>\<open>bdryFace\<close>.
\<close>

record Base =
  gluingPermOf :: "NTetFace \<Rightarrow> NTetFace \<Rightarrow> int \<Rightarrow> NPerm"
  sign :: "NPerm \<Rightarrow> int"
  invS3 :: "int \<Rightarrow> int"
  isCanonical :: "NCompactSearcher \<Rightarrow> bool"
  edgeNumber :: "int \<Rightarrow> int \<Rightarrow> int"
  edgeVertex :: "int \<Rightarrow> bool \<Rightarrow> int"
  vtxBdryNext :: "NCompactSearcher \<Rightarrow> int \<Rightarrow> int \<Rightarrow> int \<Rightarrow> int
                    \<Rightarrow> (bool \<Rightarrow> int) \<times> (bool \<Rightarrow> bool)"

definition gluingPerm :: "Base \<Rightarrow> NCompactSearcher \<Rightarrow> NTetFace \<Rightarrow> NPerm" where
  "gluingPerm B s fc = gluingPermOf B fc (pairing s fc) (permIndices s fc)"

definition isBoundary :: "NTetFace \<Rightarrow> nat \<Rightarrow> bool" where
  "isBoundary fc n = (tet fc = int n \<and> face fc = 0)"

subsection \<open>Edge classes\<close>

text \<open>
  Modelled from the spec: \<^verbatim>\<open>findEdgeClass\<close> (both overloads) is an inline
  function of \<^verbatim>\<open>ngluingpermsearcher.h\<close>, which is not among the sources.  It
  ``identifies the edge-class representative'' by following \<open>parent\<close> up to the root,
  the second overload ``XOR-ing twistToParent along the union-find path'', exactly as
  the loop written out in \<^verbatim>\<open>mergeVertexClasses\<close> does for vertices.  A cyclic
  parent chain makes the loop run forever: the value is \<open>None\<close>.
\<close>

partial_function (option) findEdgeClassTw ::
    "(int \<Rightarrow> TetEdgeState) \<Rightarrow> int \<Rightarrow> bool \<Rightarrow> (int \<times> bool) option" where
  "findEdgeClassTw es edgeID twisted =
     (if parent (es edgeID) \<ge> 0
      then findEdgeClassTw es (parent (es edgeID)) (twisted \<noteq> twistUp (es edgeID))
      else Some (edgeID, twisted))"

declare findEdgeClassTw.simps [code]

partial_function (option) findEdgeClass ::
    "(int \<Rightarrow> TetEdgeState) \<Rightarrow> int \<Rightarrow> int option" where
  "findEdgeClass es edgeID =
     (if parent (es edgeID) \<ge> 0
      then findEdgeClass es (parent (es edgeID))
      else Some edgeID)"

declare findEdgeClass.simps [code]

text \<open>One pass of the loop body of \<^verbatim>\<open>mergeEdgeClasses\<close>, for the vertex \<open>v2\<close>.\<close>

definition mergeEdgePair ::
    "Base \<Rightarrow> NTetFace \<Rightarrow> NTetFace \<Rightarrow> NPerm \<Rightarrow> int \<Rightarrow> NCompactSearcher \<times> bool
      \<Rightarrow> (NCompactSearcher \<times> bool) option" where
  "mergeEdgePair B fc adj p v2 sr =
    (let s = fst sr; retVal = snd sr;
         v1 = face fc; w1 = p v1; w2 = p v2;
         e = 5 - edgeNumber B v1 v2;
         f = 5 - edgeNumber B w1 w2;
         orderIdx = v2 + 4 * orderElt s;
         hasTwist = (p (edgeVertex B e False) > p (edgeVertex B e True))
     in case findEdgeClassTw (edgeState s) (e + 6 * tet fc) False of
          None \<Rightarrow> None
        | Some (eRep, tw) \<Rightarrow>
      (case findEdgeClassTw (edgeState s) (f + 6 * tet adj) tw of
          None \<Rightarrow> None
        | Some (fRep, parentTwists) \<Rightarrow>
          if eRep = fRep then
            Some (s\<lparr>edgeState := (edgeState s)(eRep := (edgeState s eRep)\<lparr>bounded := False\<rparr>),
                    edgeStateChanged := (edgeStateChanged s)(orderIdx := -1)\<rparr>,
                  retVal \<or> (hasTwist \<noteq> parentTwists))
          else if rank (edgeState s eRep) < rank (edgeState s fRep) then
            (let es1 = (edgeState s)(eRep := (edgeState s eRep)
                           \<lparr>parent := fRep, twistUp := (hasTwist \<noteq> parentTwists)\<rparr>);
                 es2 = es1(fRep := (es1 fRep)\<lparr>size' := size' (es1 fRep) + size' (es1 eRep)\<rparr>)
             in Some (s\<lparr>edgeState := es2,
                        edgeStateChanged := (edgeStateChanged s)(orderIdx := eRep),
                        nEdgeClasses := nEdgeClasses s - 1\<rparr>, retVal))
          else
            (let es1 = (edgeState s)(fRep := (edgeState s fRep)
                           \<lparr>parent := eRep, twistUp := (hasTwist \<noteq> parentTwists)\<rparr>);
                 es2 = (if rank (es1 eRep) = rank (es1 fRep)
                        then (let es' = es1(eRep := (es1 eRep)\<lparr>rank := rank (es1 eRep) + 1\<rparr>)
                              in es'(fRep := (es' fRep)\<lparr>hadEqualRank := True\<rparr>))
                        else es1);
                 es3 = es2(eRep := (es2 eRep)\<lparr>size' := size' (es2 eRep) + size' (es2 fRep)\<rparr>)
             in Some (s\<lparr>edgeState := es3,
                        edgeStateChanged := (edgeStateChanged s)(orderIdx := fRep),
                        nEdgeClasses := nEdgeClasses s - 1\<rparr>, retVal))))"

fun mergeEdgeLoop ::
    "Base \<Rightarrow> NTetFace \<Rightarrow> NTetFace \<Rightarrow> NPerm \<Rightarrow> int list \<Rightarrow> NCompactSearcher \<times> bool
      \<Rightarrow> (NCompactSearcher \<times> bool) option" where
  "mergeEdgeLoop B fc adj p [] sr = Some sr"
| "mergeEdgeLoop B fc adj p (v2 # vs) sr =
     (if v2 = face fc then mergeEdgeLoop B fc adj p vs sr
      else case mergeEdgePair B fc adj p v2 sr of
             None \<Rightarrow> None
           | Some sr' \<Rightarrow> mergeEdgeLoop B fc adj p vs sr')"

definition mergeEdgeClasses :: "Base \<Rightarrow> NCompactSearcher \<Rightarrow> (NCompactSearcher \<times> bool) option" where
  "mergeEdgeClasses B s =
     (let fc = order s (orderElt s); adj = pairing s fc; p = gluingPerm B s fc
      in mergeEdgeLoop B fc adj p [0, 1, 2, 3] (s, False))"

text \<open>One pass of the loop body of \<^verbatim>\<open>splitEdgeClasses\<close>, for the vertex \<open>v2\<close>.\<close>

definition splitEdgePair ::
    "Base \<Rightarrow> NTetFace \<Rightarrow> int \<Rightarrow> NCompactSearcher \<Rightarrow> NCompactSearcher option" where
  "splitEdgePair B fc v2 s =
    (let v1 = face fc;
         e = 5 - edgeNumber B v1 v2;
         eIdx = e + 6 * tet fc;
         orderIdx = v2 + 4 * orderElt s
     in if edgeStateChanged s orderIdx < 0 then
          (case findEdgeClass (edgeState s) eIdx of
             None \<Rightarrow> None
           | Some r \<Rightarrow> Some (s\<lparr>edgeState := (edgeState s)(r := (edgeState s r)\<lparr>bounded := True\<rparr>)\<rparr>))
        else
          (let subRep = edgeStateChanged s orderIdx;
               rep = parent (edgeState s subRep);
               es1 = (edgeState s)(subRep := (edgeState s subRep)\<lparr>parent := -1\<rparr>);
               es2 = (if hadEqualRank (es1 subRep)
                      then (let es' = es1(subRep := (es1 subRep)\<lparr>hadEqualRank := False\<rparr>)
                            in es'(rep := (es' rep)\<lparr>rank := rank (es' rep) - 1\<rparr>))
                      else es1);
               es3 = es2(rep := (es2 rep)\<lparr>size' := size' (es2 rep) - size' (es2 subRep)\<rparr>)
           in Some (s\<lparr>edgeState := es3,
                      edgeStateChanged := (edgeStateChanged s)(orderIdx := -1),
                      nEdgeClasses := nEdgeClasses s + 1\<rparr>)))"

fun splitEdgeLoop ::
    "Base \<Rightarrow> NTetFace \<Rightarrow> int list \<Rightarrow> NCompactSearcher \<Rightarrow> NCompactSearcher option" where
  "splitEdgeLoop B fc [] s = Some s"
| "splitEdgeLoop B fc (v2 # vs) s =
     (if v2 = face fc then splitEdgeLoop B fc vs s
      else case splitEdgePair B fc v2 s of
             None \<Rightarrow> None
           | Some s' \<Rightarrow> splitEdgeLoop B fc vs s')"

definition splitEdgeClasses :: "Base \<Rightarrow> NCompactSearcher \<Rightarrow> NCompactSearcher option" where
  "splitEdgeClasses B s = splitEdgeLoop B (order s (orderElt s)) [3, 2, 1, 0] s"

subsection \<open>Vertex classes\<close>

definition VLINK_CLOSED :: int where
  "VLINK_CLOSED = 1"

definition VLINK_NON_SPHERE :: int where
  "VLINK_NON_SPHERE = 2"

definition vertexLinkNextFace :: "int \<Rightarrow> int \<Rightarrow> int" where
  "vertexLinkNextFace v f =
     [[-1, 2, 3, 1], [3, -1, 0, 2], [1, 3, -1, 0], [1, 2, 0, -1]] ! nat v ! nat f"

definition vertexLinkPrevFace :: "int \<Rightarrow> int \<Rightarrow> int" where
  "vertexLinkPrevFace v f =
     [[-1, 3, 1, 2], [2, -1, 3, 0], [3, 0, -1, 1], [2, 0, 1, -1]] ! nat v ! nat f"

text \<open>An assignment to one element of the array \<^verbatim>\<open>vertexState\<close>.\<close>

definition vsUpd ::
    "int \<Rightarrow> (TetVertexState \<Rightarrow> TetVertexState) \<Rightarrow> NCompactSearcher \<Rightarrow> NCompactSearcher" where
  "vsUpd i g s = s\<lparr>vertexState := (vertexState s)(i := g (vertexState s i))\<rparr>"

text \<open>
  Modelled from the spec: the inline helpers \<^verbatim>\<open>vtxBdryJoin\<close>, \<^verbatim>\<open>vtxBdryFixAdj\<close>,
  \<^verbatim>\<open>vtxBdryBackup\<close>, \<^verbatim>\<open>vtxBdryRestore\<close>, \<^verbatim>\<open>vtxBdryLength1\<close> and
  \<^verbatim>\<open>vtxBdryLength2\<close> of \<^verbatim>\<open>ngluingpermsearcher.h\<close>, which is not among the sources.
  The boundary of a partial vertex link is ``a 2-element circular doubly-linked list
  (next[2], twist[2])'' with ``backup fields [that] hold the pre-merge boundary-link
  state''.  The link discipline is the one \<^verbatim>\<open>vtxBdryConsistencyCheck\<close> tests: the
  neighbour \<open>adj\<close> at end \<open>e\<close> of \<open>id\<close> has \<open>id\<close> at its end \<open>(1 ^ e) ^ twist\<close>, with the
  same twist.  \<open>vtxBdryJoin\<close> links two nodes that way (``adjust each neighbour to point
  to the other''), \<open>vtxBdryFixAdj\<close> makes both neighbours of a node ``point back'' to
  it, \<open>vtxBdryBackup\<close> and \<open>vtxBdryRestore\<close> copy the links to and from the backup
  fields, \<open>vtxBdryLength1\<close> says that a node ``forms an entire boundary component of
  length one'', \<open>vtxBdryLength2\<close> that two nodes form ``a single boundary of length
  two''.
\<close>

definition vtxBdryJoin :: "int \<Rightarrow> bool \<Rightarrow> int \<Rightarrow> bool \<Rightarrow> NCompactSearcher \<Rightarrow> NCompactSearcher" where
  "vtxBdryJoin vertexID end' adjVertexID twist s =
    (let s1 = vsUpd vertexID (\<lambda>n. n\<lparr>bdryNext := (bdryNext n)(end' := adjVertexID)\<rparr>) s;
         s2 = vsUpd vertexID (\<lambda>n. n\<lparr>bdryTwist := (bdryTwist n)(end' := twist)\<rparr>) s1;
         s3 = vsUpd adjVertexID
                (\<lambda>n. n\<lparr>bdryNext := (bdryNext n)(((\<not> end') \<noteq> twist) := vertexID)\<rparr>) s2
     in vsUpd adjVertexID
          (\<lambda>n. n\<lparr>bdryTwist := (bdryTwist n)(((\<not> end') \<noteq> twist) := twist)\<rparr>) s3)"

definition vtxBdryFixAdj :: "int \<Rightarrow> NCompactSearcher \<Rightarrow> NCompactSearcher" where
  "vtxBdryFixAdj vertexID s =
    (if bdryNext (vertexState s vertexID) False \<noteq> vertexID then
       (let s1 = vsUpd (bdryNext (vertexState s vertexID) False)
                   (\<lambda>n. n\<lparr>bdryNext := (bdryNext n)
                      ((\<not> bdryTwist (vertexState s vertexID) False) := vertexID)\<rparr>) s;
            s2 = vsUpd (bdryNext (vertexState s1 vertexID) False)
                   (\<lambda>n. n\<lparr>bdryTwist := (bdryTwist n)
                      ((\<not> bdryTwist (vertexState s1 vertexID) False) :=
                          bdryTwist (vertexState s1 vertexID) False)\<rparr>) s1;
            s3 = vsUpd (bdryNext (vertexState s2 vertexID) True)
                   (\<lambda>n. n\<lparr>bdryNext := (bdryNext n)
                      ((bdryTwist (vertexState s2 vertexID) True) := vertexID)\<rparr>) s2
        in vsUpd (bdryNext (vertexState s3 vertexID) True)
                   (\<lambda>n. n\<lparr>bdryTwist := (bdryTwist n)
                      ((bdryTwist (vertexState s3 vertexID) True) :=
                          bdryTwist (vertexState s3 vertexID) True)\<rparr>) s3)
     else s)"

definition vtxBdryBackup :: "int \<Rightarrow> NCompactSearcher \<Rightarrow> NCompactSearcher" where
  "vtxBdryBackup vertexID s =
     vsUpd vertexID (\<lambda>n. n\<lparr>bdryNextOld := bdryNext n, bdryTwistOld := bdryTwist n\<rparr>) s"

definition vtxBdryRestore :: "int \<Rightarrow> NCompactSearcher \<Rightarrow> NCompactSearcher" where
  "vtxBdryRestore vertexID s =
     vsUpd vertexID (\<lambda>n. n\<lparr>bdryNext := bdryNextOld n, bdryTwist := bdryTwistOld n\<rparr>) s"

definition vtxBdryLength1 :: "NCompactSearcher \<Rightarrow> int \<Rightarrow> bool" where
  "vtxBdryLength1 s vertexID =
     (bdryNext (vertexState s vertexID) False = vertexID \<and>
      bdryEdges (vertexState s vertexID) = 1)"

definition vtxBdryLength2 :: "NCompactSearcher \<Rightarrow> int \<Rightarrow> int \<Rightarrow> bool" where
  "vtxBdryLength2 s vertexID1 vertexID2 =
     (bdryNext (vertexState s vertexID1) False = vertexID2 \<and>
      bdryNext (vertexState s vertexID1) True = vertexID2 \<and>
      bdryEdges (vertexState s vertexID1) = 1 \<and>
      bdryEdges (vertexState s vertexID2) = 1)"

text \<open>
  The two loops of \<^verbatim>\<open>mergeVertexClasses\<close> that walk the union-find path from a
  vertex to its representative, accumulating \<open>twistUp\<close>.
\<close>

partial_function (option) vtxFindRep ::
    "(int \<Rightarrow> TetVertexState) \<Rightarrow> int \<Rightarrow> bool \<Rightarrow> (int \<times> bool) option" where
  "vtxFindRep vs rep parentTwists =
     (if parent (vs rep) \<ge> 0
      then vtxFindRep vs (parent (vs rep)) (parentTwists \<noteq> twistUp (vs rep))
      else Some (rep, parentTwists))"

declare vtxFindRep.simps [code]

text \<open>
  The scan along the boundary cycle of \<open>vIdx\<close> that stops at \<open>vIdx\<close> or \<open>wIdx\<close>; it
  returns the index it stops at.
\<close>

partial_function (option) vtxBdryScan ::
    "(int \<Rightarrow> TetVertexState) \<Rightarrow> int \<Rightarrow> int \<Rightarrow> int \<Rightarrow> bool \<Rightarrow> int option" where
  "vtxBdryScan vs vIdx wIdx tmpIdx tmpTwist =
     (if tmpIdx \<noteq> vIdx \<and> tmpIdx \<noteq> wIdx
      then vtxBdryScan vs vIdx wIdx (bdryNext (vs tmpIdx) tmpTwist)
             (tmpTwist \<noteq> bdryTwist (vs tmpIdx) tmpTwist)
      else Some tmpIdx)"

declare vtxBdryScan.simps [code]

text \<open>
  The loop body of \<^verbatim>\<open>mergeVertexClasses\<close> is cut into its blocks.  \<open>vtxBackupBoth\<close>
  is the pair of backups taken when a vertex has two boundary edges left, and
  \<open>vtxDropEdges\<close> the two decrements of \<open>bdryEdges\<close> that end both branches for
  distinct tetrahedron vertices.
\<close>

definition vtxBackupBoth :: "int \<Rightarrow> int \<Rightarrow> NCompactSearcher \<Rightarrow> NCompactSearcher" where
  "vtxBackupBoth vIdx wIdx s =
     (let s = (if bdryEdges (vertexState s vIdx) = 2 then vtxBdryBackup vIdx s else s)
      in if bdryEdges (vertexState s wIdx) = 2 then vtxBdryBackup wIdx s else s)"

definition vtxDropEdges :: "int \<Rightarrow> int \<Rightarrow> NCompactSearcher \<Rightarrow> NCompactSearcher" where
  "vtxDropEdges vIdx wIdx s =
     (let s = vsUpd vIdx (\<lambda>n. n\<lparr>bdryEdges := bdryEdges n - 1\<rparr>) s
      in vsUpd wIdx (\<lambda>n. n\<lparr>bdryEdges := bdryEdges n - 1\<rparr>) s)"

text \<open>
  Same class, \<^verbatim>\<open>vIdx == wIdx\<close>: two edges of one triangle of the link are folded
  together.
\<close>

definition vtxFoldSelf :: "int \<Rightarrow> bool \<Rightarrow> NCompactSearcher \<Rightarrow> NCompactSearcher" where
  "vtxFoldSelf vIdx hasTwist s =
     (let s = (if \<not> hasTwist \<and> bdryEdges (vertexState s vIdx) < 3 then
                 (if bdryNext (vertexState s vIdx) False = vIdx then s
                  else vtxBdryJoin (bdryNext (vertexState s vIdx) False)
                         (\<not> bdryTwist (vertexState s vIdx) False)
                         (bdryNext (vertexState s vIdx) True)
                         (bdryTwist (vertexState s vIdx) True
                            \<noteq> bdryTwist (vertexState s vIdx) False) s)
               else s)
      in vsUpd vIdx (\<lambda>n. n\<lparr>bdryEdges := bdryEdges n - 2\<rparr>) s)"

text \<open>
  The two calls of \<^verbatim>\<open>vtxBdryJoin\<close> that splice the neighbours of \<open>v\<close> and \<open>w\<close>
  together across the glued edge; they occur in both branches.
\<close>

definition vtxSplice ::
    "(bool \<Rightarrow> int) \<Rightarrow> (bool \<Rightarrow> bool) \<Rightarrow> (bool \<Rightarrow> int) \<Rightarrow> (bool \<Rightarrow> bool) \<Rightarrow> bool
       \<Rightarrow> NCompactSearcher \<Rightarrow> NCompactSearcher" where
  "vtxSplice vNext vTwist wNext wTwist hasTwist s =
     (let s = vtxBdryJoin (vNext False) (\<not> vTwist False) (wNext (\<not> hasTwist))
                (vTwist False \<noteq> (hasTwist \<noteq> wTwist (\<not> hasTwist))) s
      in vtxBdryJoin (vNext True) (vTwist True) (wNext hasTwist)
           (vTwist True \<noteq> (hasTwist \<noteq> wTwist hasTwist)) s)"

text \<open>
  Same class, distinct tetrahedron vertices, neither two boundaries of length one nor
  one boundary of length two: adjacent edges are eliminated, and otherwise the scan
  decides between different boundary cycles (flagged) and the same cycle (spliced).
\<close>

definition vtxJoinCycle ::
    "Base \<Rightarrow> NTetFace \<Rightarrow> NTetFace \<Rightarrow> int \<Rightarrow> int \<Rightarrow> bool \<Rightarrow> NCompactSearcher \<times> int
       \<Rightarrow> (NCompactSearcher \<times> int) option" where
  "vtxJoinCycle B fc adj v w hasTwist sr =
    (let s = fst sr; retVal = snd sr;
         vIdx = v + 4 * tet fc; wIdx = w + 4 * tet adj;
         vNext = fst (vtxBdryNext B s vIdx (tet fc) v (face fc));
         vTwist = snd (vtxBdryNext B s vIdx (tet fc) v (face fc));
         wNext = fst (vtxBdryNext B s wIdx (tet adj) w (face adj));
         wTwist = snd (vtxBdryNext B s wIdx (tet adj) w (face adj))
     in if vNext False = wIdx \<and> wNext (\<not> vTwist False) = vIdx then
          Some (vtxBdryJoin (vNext True) (vTwist True) (wNext (vTwist False))
                  ((vTwist False \<noteq> wTwist (vTwist False)) \<noteq> vTwist True) s,
                retVal)
        else if vNext True = wIdx \<and> wNext (vTwist True) = vIdx then
          Some (vtxBdryJoin (vNext False) (\<not> vTwist False) (wNext (\<not> vTwist True))
                  ((vTwist True \<noteq> wTwist (\<not> vTwist True)) \<noteq> vTwist False) s,
                retVal)
        else
          (case vtxBdryScan (vertexState s) vIdx wIdx
                  (bdryNext (vertexState s vIdx) False)
                  (bdryTwist (vertexState s vIdx) False) of
             None \<Rightarrow> None
           | Some tmpIdx \<Rightarrow>
               if tmpIdx = vIdx then Some (s, or retVal VLINK_NON_SPHERE)
               else Some (vtxSplice vNext vTwist wNext wTwist hasTwist s, retVal)))"

text \<open>
  Same class, distinct tetrahedron vertices (``We are joining two distinct
  tetrahedron vertices that already contribute to the same vertex link'').
\<close>

definition vtxJoinSame ::
    "Base \<Rightarrow> NTetFace \<Rightarrow> NTetFace \<Rightarrow> int \<Rightarrow> int \<Rightarrow> bool \<Rightarrow> NCompactSearcher \<times> int
       \<Rightarrow> (NCompactSearcher \<times> int) option" where
  "vtxJoinSame B fc adj v w hasTwist sr =
    (let vIdx = v + 4 * tet fc; wIdx = w + 4 * tet adj;
         s = vtxBackupBoth vIdx wIdx (fst sr); retVal = snd sr;
         r = (if vtxBdryLength1 s vIdx \<and> vtxBdryLength1 s wIdx then
                Some (s, or retVal VLINK_NON_SPHERE)
              else if vtxBdryLength2 s vIdx wIdx then Some (s, retVal)
              else vtxJoinCycle B fc adj v w hasTwist (s, retVal))
     in case r of
          None \<Rightarrow> None
        | Some sr' \<Rightarrow> Some (vtxDropEdges vIdx wIdx (fst sr'), snd sr'))"

text \<open>
  The branch \<^verbatim>\<open>vRep == wRep\<close> of the loop body of \<^verbatim>\<open>mergeVertexClasses\<close>.
\<close>

definition mergeVertexSame ::
    "Base \<Rightarrow> NTetFace \<Rightarrow> NTetFace \<Rightarrow> int \<Rightarrow> int \<Rightarrow> int \<Rightarrow> bool \<Rightarrow> bool
      \<Rightarrow> NCompactSearcher \<times> int \<Rightarrow> (NCompactSearcher \<times> int) option" where
  "mergeVertexSame B fc adj v w vRep hasTwist parentTwists sr =
    (let s = fst sr; retVal = snd sr;
         vIdx = v + 4 * tet fc; wIdx = w + 4 * tet adj;
         orderIdx = v + 4 * orderElt s;
         s = vsUpd vRep (\<lambda>n. n\<lparr>bdry := bdry n - 2\<rparr>) s;
         retVal = (if bdry (vertexState s vRep) = 0 then or retVal VLINK_CLOSED else retVal);
         retVal = (if hasTwist \<noteq> parentTwists then or retVal VLINK_NON_SPHERE else retVal);
         s = s\<lparr>vertexStateChanged := (vertexStateChanged s)(orderIdx := -1)\<rparr>
     in if vIdx = wIdx then Some (vtxFoldSelf vIdx hasTwist s, retVal)
        else vtxJoinSame B fc adj v w hasTwist (s, retVal))"

text \<open>
  Different classes: the union by rank, with the boundary counts added up.
\<close>

definition vtxUnion ::
    "int \<Rightarrow> int \<Rightarrow> int \<Rightarrow> bool \<Rightarrow> NCompactSearcher \<times> int \<Rightarrow> NCompactSearcher \<times> int" where
  "vtxUnion orderIdx vRep wRep twist sr =
    (let s = fst sr; retVal = snd sr
     in if rank (vertexState s vRep) < rank (vertexState s wRep) then
          (let s = vsUpd vRep (\<lambda>n. n\<lparr>parent := wRep\<rparr>) s;
               s = vsUpd vRep (\<lambda>n. n\<lparr>twistUp := twist\<rparr>) s;
               s = vsUpd wRep (\<lambda>n. n\<lparr>bdry := bdry n + bdry (vertexState s vRep) - 2\<rparr>) s;
               retVal = (if bdry (vertexState s wRep) = 0
                         then or retVal VLINK_CLOSED else retVal)
           in (s\<lparr>vertexStateChanged := (vertexStateChanged s)(orderIdx := vRep)\<rparr>, retVal))
        else
          (let s = vsUpd wRep (\<lambda>n. n\<lparr>parent := vRep\<rparr>) s;
               s = vsUpd wRep (\<lambda>n. n\<lparr>twistUp := twist\<rparr>) s;
               s = (if rank (vertexState s vRep) = rank (vertexState s wRep) then
                      (let s = vsUpd vRep (\<lambda>n. n\<lparr>rank := rank n + 1\<rparr>) s
                       in vsUpd wRep (\<lambda>n. n\<lparr>hadEqualRank := True\<rparr>) s)
                    else s);
               s = vsUpd vRep (\<lambda>n. n\<lparr>bdry := bdry n + bdry (vertexState s wRep) - 2\<rparr>) s;
               retVal = (if bdry (vertexState s vRep) = 0
                         then or retVal VLINK_CLOSED else retVal)
           in (s\<lparr>vertexStateChanged := (vertexStateChanged s)(orderIdx := wRep)\<rparr>, retVal)))"

text \<open>
  Different classes: ``Adjust the cycles of boundary components''.
\<close>

definition vtxJoinDiff ::
    "Base \<Rightarrow> NTetFace \<Rightarrow> NTetFace \<Rightarrow> int \<Rightarrow> int \<Rightarrow> bool \<Rightarrow> NCompactSearcher \<Rightarrow> NCompactSearcher" where
  "vtxJoinDiff B fc adj v w hasTwist s =
    (let vIdx = v + 4 * tet fc; wIdx = w + 4 * tet adj
     in if vtxBdryLength1 s vIdx then
          (if vtxBdryLength1 s wIdx then s
           else if bdryEdges (vertexState s wIdx) = 1 then
             vtxBdryJoin (bdryNext (vertexState s wIdx) False)
               (\<not> bdryTwist (vertexState s wIdx) False)
               (bdryNext (vertexState s wIdx) True)
               (bdryTwist (vertexState s wIdx) False \<noteq> bdryTwist (vertexState s wIdx) True) s
           else s)
        else if vtxBdryLength1 s wIdx then
          (if bdryEdges (vertexState s vIdx) = 1 then
             vtxBdryJoin (bdryNext (vertexState s vIdx) False)
               (\<not> bdryTwist (vertexState s vIdx) False)
               (bdryNext (vertexState s vIdx) True)
               (bdryTwist (vertexState s vIdx) False \<noteq> bdryTwist (vertexState s vIdx) True) s
           else s)
        else
          vtxSplice (fst (vtxBdryNext B s vIdx (tet fc) v (face fc)))
            (snd (vtxBdryNext B s vIdx (tet fc) v (face fc)))
            (fst (vtxBdryNext B s wIdx (tet adj) w (face adj)))
            (snd (vtxBdryNext B s wIdx (tet adj) w (face adj))) hasTwist s)"

text \<open>
  The branch \<^verbatim>\<open>vRep != wRep\<close> of the loop body of \<^verbatim>\<open>mergeVertexClasses\<close>.
\<close>

definition mergeVertexDiff ::
    "Base \<Rightarrow> NTetFace \<Rightarrow> NTetFace \<Rightarrow> int \<Rightarrow> int \<Rightarrow> int \<Rightarrow> int \<Rightarrow> bool \<Rightarrow> bool
      \<Rightarrow> NCompactSearcher \<times> int \<Rightarrow> NCompactSearcher \<times> int" where
  "mergeVertexDiff B fc adj v w vRep wRep hasTwist parentTwists sr =
    (let vIdx = v + 4 * tet fc; wIdx = w + 4 * tet adj;
         sr1 = vtxUnion (v + 4 * orderElt (fst sr)) vRep wRep (hasTwist \<noteq> parentTwists) sr;
         s = (fst sr1)\<lparr>nVertexClasses := nVertexClasses (fst sr1) - 1\<rparr>;
         s = vtxBackupBoth vIdx wIdx s;
         s = vtxJoinDiff B fc adj v w hasTwist s
     in (vtxDropEdges vIdx wIdx s, snd sr1))"

text \<open>One pass of the loop body of \<^verbatim>\<open>mergeVertexClasses\<close>, for the vertex \<open>v\<close>.\<close>

definition vtxHasTwist :: "Base \<Rightarrow> NPerm \<Rightarrow> int \<Rightarrow> int \<Rightarrow> bool" where
  "vtxHasTwist B p v w =
     (let hasTwist = (if sign B p < 0 then False else True)
      in if (v = 3 \<and> w \<noteq> 3) \<or> (v \<noteq> 3 \<and> w = 3) then \<not> hasTwist else hasTwist)"

definition mergeVertexPair ::
    "Base \<Rightarrow> NTetFace \<Rightarrow> NTetFace \<Rightarrow> NPerm \<Rightarrow> int \<Rightarrow> NCompactSearcher \<times> int
      \<Rightarrow> (NCompactSearcher \<times> int) option" where
  "mergeVertexPair B fc adj p v sr =
    (let s = fst sr;
         w = p v;
         vIdx = v + 4 * tet fc; wIdx = w + 4 * tet adj;
         hasTwist = vtxHasTwist B p v w
     in case vtxFindRep (vertexState s) vIdx False of
          None \<Rightarrow> None
        | Some (vRep, tw) \<Rightarrow>
      (case vtxFindRep (vertexState s) wIdx tw of
          None \<Rightarrow> None
        | Some (wRep, parentTwists) \<Rightarrow>
          if vRep = wRep then mergeVertexSame B fc adj v w vRep hasTwist parentTwists sr
          else Some (mergeVertexDiff B fc adj v w vRep wRep hasTwist parentTwists sr)))"

fun mergeVertexLoop ::
    "Base \<Rightarrow> NTetFace \<Rightarrow> NTetFace \<Rightarrow> NPerm \<Rightarrow> int list \<Rightarrow> NCompactSearcher \<times> int
      \<Rightarrow> (NCompactSearcher \<times> int) option" where
  "mergeVertexLoop B fc adj p [] sr = Some sr"
| "mergeVertexLoop B fc adj p (v # vs) sr =
     (if v = face fc then mergeVertexLoop B fc adj p vs sr
      else case mergeVertexPair B fc adj p v sr of
             None \<Rightarrow> None
           | Some sr' \<Rightarrow> mergeVertexLoop B fc adj p vs sr')"

definition mergeVertexClasses :: "Base \<Rightarrow> NCompactSearcher \<Rightarrow> (NCompactSearcher \<times> int) option" where
  "mergeVertexClasses B s =
     (let fc = order s (orderElt s); adj = pairing s fc; p = gluingPerm B s fc
      in mergeVertexLoop B fc adj p [0, 1, 2, 3] (s, 0))"

text \<open>
  The \<^verbatim>\<open>switch\<close> of \<^verbatim>\<open>splitVertexClasses\<close> on the restored \<open>bdryEdges\<close> of a
  vertex; case 2 falls through to case 1.
\<close>

definition vtxBdrySplitRestore :: "int \<Rightarrow> NCompactSearcher \<Rightarrow> NCompactSearcher" where
  "vtxBdrySplitRestore idx s =
     (if bdryEdges (vertexState s idx) = 3 then
        (let s = vsUpd idx (\<lambda>n. n\<lparr>bdryNext := (\<lambda>_. idx)\<rparr>) s
         in vsUpd idx (\<lambda>n. n\<lparr>bdryTwist := (\<lambda>_. False)\<rparr>) s)
      else if bdryEdges (vertexState s idx) = 2 then vtxBdryFixAdj idx (vtxBdryRestore idx s)
      else if bdryEdges (vertexState s idx) = 1 then vtxBdryFixAdj idx s
      else s)"

partial_function (option) vtxFindRoot ::
    "(int \<Rightarrow> TetVertexState) \<Rightarrow> int \<Rightarrow> int option" where
  "vtxFindRoot vs rep =
     (if parent (vs rep) \<ge> 0 then vtxFindRoot vs (parent (vs rep)) else Some rep)"

declare vtxFindRoot.simps [code]

text \<open>
  The loop body of \<^verbatim>\<open>splitVertexClasses\<close> in its two blocks: the union is undone
  (or the boundary count of the representative restored), then the boundary cycles
  are restored.
\<close>

definition vtxSplitUnion :: "int \<Rightarrow> int \<Rightarrow> NCompactSearcher \<Rightarrow> NCompactSearcher option" where
  "vtxSplitUnion vIdx orderIdx s =
     (if vertexStateChanged s orderIdx < 0 then
        (case vtxFindRoot (vertexState s) vIdx of
           None \<Rightarrow> None
         | Some rep \<Rightarrow> Some (vsUpd rep (\<lambda>n. n\<lparr>bdry := bdry n + 2\<rparr>) s))
      else
        (let subRep = vertexStateChanged s orderIdx;
             rep = parent (vertexState s subRep);
             s = vsUpd subRep (\<lambda>n. n\<lparr>parent := -1\<rparr>) s;
             s = (if hadEqualRank (vertexState s subRep) then
                    (let s = vsUpd subRep (\<lambda>n. n\<lparr>hadEqualRank := False\<rparr>) s
                     in vsUpd rep (\<lambda>n. n\<lparr>rank := rank n - 1\<rparr>) s)
                  else s);
             s = vsUpd rep (\<lambda>n. n\<lparr>bdry := bdry n + 2 - bdry (vertexState s subRep)\<rparr>) s
         in Some (s\<lparr>vertexStateChanged := (vertexStateChanged s)(orderIdx := -1),
                    nVertexClasses := nVertexClasses s + 1\<rparr>)))"

definition vtxSplitBdry :: "int \<Rightarrow> int \<Rightarrow> NCompactSearcher \<Rightarrow> NCompactSearcher" where
  "vtxSplitBdry vIdx wIdx s =
     (if vIdx = wIdx then
        (let s = vsUpd vIdx (\<lambda>n. n\<lparr>bdryEdges := bdryEdges n + 2\<rparr>) s
         in if bdryEdges (vertexState s vIdx) = 2 then vtxBdryFixAdj vIdx s else s)
      else
        (let s = vsUpd wIdx (\<lambda>n. n\<lparr>bdryEdges := bdryEdges n + 1\<rparr>) s;
             s = vsUpd vIdx (\<lambda>n. n\<lparr>bdryEdges := bdryEdges n + 1\<rparr>) s;
             s = vtxBdrySplitRestore wIdx s
         in vtxBdrySplitRestore vIdx s))"

text \<open>One pass of the loop body of \<^verbatim>\<open>splitVertexClasses\<close>, for the vertex \<open>v\<close>.\<close>

definition splitVertexPair ::
    "NTetFace \<Rightarrow> NTetFace \<Rightarrow> NPerm \<Rightarrow> int \<Rightarrow> NCompactSearcher \<Rightarrow> NCompactSearcher option" where
  "splitVertexPair fc adj p v s =
    (let w = p v;
         vIdx = v + 4 * tet fc; wIdx = w + 4 * tet adj;
         orderIdx = v + 4 * orderElt s
     in case vtxSplitUnion vIdx orderIdx s of
          None \<Rightarrow> None
        | Some s \<Rightarrow> Some (vtxSplitBdry vIdx wIdx s))"

fun splitVertexLoop ::
    "NTetFace \<Rightarrow> NTetFace \<Rightarrow> NPerm \<Rightarrow> int list \<Rightarrow> NCompactSearcher \<Rightarrow> NCompactSearcher option" where
  "splitVertexLoop fc adj p [] s = Some s"
| "splitVertexLoop fc adj p (v # vs) s =
     (if v = face fc then splitVertexLoop fc adj p vs s
      else case splitVertexPair fc adj p v s of
             None \<Rightarrow> None
           | Some s' \<Rightarrow> splitVertexLoop fc adj p vs s')"

definition splitVertexClasses :: "Base \<Rightarrow> NCompactSearcher \<Rightarrow> NCompactSearcher option" where
  "splitVertexClasses B s =
     (let fc = order s (orderElt s); adj = pairing s fc; p = gluingPerm B s fc
      in splitVertexLoop fc adj p [3, 2, 1, 0] s)"

subsection \<open>The search\<close>

text \<open>
  A call \<^verbatim>\<open>use_(this, useArgs_)\<close> hands the callback the searcher as it is at
  that moment; \<^verbatim>\<open>use_(0, useArgs_)\<close> hands it the null pointer.  The calls made so
  far are kept in a list, oldest first.
\<close>

datatype UseArg = Searcher NCompactSearcher | Null

fun isNull :: "UseArg \<Rightarrow> bool" where
  "isNull Null = True"
| "isNull (Searcher s) = False"

definition splitBoth :: "Base \<Rightarrow> NCompactSearcher \<Rightarrow> NCompactSearcher option" where
  "splitBoth B s =
     (case splitVertexClasses B s of
        None \<Rightarrow> None
      | Some s \<Rightarrow> splitEdgeClasses B s)"

text \<open>
  ``Back to the previous face'': \<^verbatim>\<open>orderElt--\<close>, and the links of the previous
  level are pulled apart if that level belongs to this run.
\<close>

definition stepBack ::
    "Base \<Rightarrow> int \<Rightarrow> NCompactSearcher \<Rightarrow> UseArg list \<Rightarrow> (NCompactSearcher \<times> UseArg list) option" where
  "stepBack B minOrder s used =
     (let s = s\<lparr>orderElt := orderElt s - 1\<rparr>
      in if orderElt s \<ge> minOrder then
           (case splitBoth B s of None \<Rightarrow> None | Some s \<Rightarrow> Some (s, used))
         else Some (s, used))"

definition fixOrientation :: "NTetFace \<Rightarrow> NTetFace \<Rightarrow> NCompactSearcher \<Rightarrow> NCompactSearcher" where
  "fixOrientation fc adj s =
     (if face adj = 0 \<and> orientableOnly s then
        (if (permIndices s fc + (if face fc = 3 then 0 else 1)
               + (if face adj = 3 then 0 else 1)) mod 2 = 0
         then s\<lparr>orientation := (orientation s)(tet adj := - orientation s (tet fc))\<rparr>
         else s\<lparr>orientation := (orientation s)(tet adj := orientation s (tet fc))\<rparr>)
      else s)"

definition startFace :: "NTetFace \<Rightarrow> NCompactSearcher \<Rightarrow> NCompactSearcher" where
  "startFace fc s =
     (if orientableOnly s \<and> face (pairing s fc) > 0 then
        (let adj = pairing s fc;
             s = (if orientation s (tet fc) = orientation s (tet adj)
                  then s\<lparr>permIndices := (permIndices s)(fc := 1)\<rparr>
                  else s\<lparr>permIndices := (permIndices s)(fc := 0)\<rparr>);
             s = (if (if face fc = 3 then 0 else 1) + (if face adj = 3 then 0 else (1::int)) = 1
                  then s\<lparr>permIndices := (permIndices s)(fc := (permIndices s fc + 1) mod 2)\<rparr>
                  else s)
         in s\<lparr>permIndices := (permIndices s)(fc := permIndices s fc - 2)\<rparr>)
      else s)"

text \<open>
  What follows a successful merge in the loop body of \<^verbatim>\<open>runSearch\<close>: the
  orientation is fixed, \<open>orderElt\<close> moves on, and a complete triangulation or a partial
  one at the depth bound is handed to the callback.
\<close>

definition moveOn ::
    "Base \<Rightarrow> int \<Rightarrow> int \<Rightarrow> NTetFace \<Rightarrow> NTetFace \<Rightarrow> NCompactSearcher \<Rightarrow> UseArg list
       \<Rightarrow> (NCompactSearcher \<times> UseArg list) option" where
  "moveOn B minOrder maxOrder fc adj s used =
     (let s = fixOrientation fc adj s;
          s = s\<lparr>orderElt := orderElt s + 1\<rparr>
      in if orderElt s = orderSize s then
           (let used = (if isCanonical B s then used @ [Searcher s] else used)
            in stepBack B minOrder s used)
         else
           (let fc = order s (orderElt s);
                s = startFace fc s
            in if orderElt s = maxOrder then
                 (let used = used @ [Searcher s];
                      s = s\<lparr>permIndices := (permIndices s)(fc := -1)\<rparr>
                  in stepBack B minOrder s used)
               else Some (s, used)))"

text \<open>
  ``Move to the next permutation'' of the face at the current order position,
  preserving the orientation of the permutation if necessary.
\<close>

definition nextPerm :: "NCompactSearcher \<Rightarrow> NCompactSearcher" where
  "nextPerm s =
     (let fc = order s (orderElt s); adj = pairing s fc
      in if \<not> orientableOnly s \<or> face adj = 0
         then s\<lparr>permIndices := (permIndices s)(fc := permIndices s fc + 1)\<rparr>
         else s\<lparr>permIndices := (permIndices s)(fc := permIndices s fc + 2)\<rparr>)"

text \<open>``Out of ideas for this face'': both permutation indices are reset.\<close>

definition resetPerm :: "NCompactSearcher \<Rightarrow> NCompactSearcher" where
  "resetPerm s =
     (let fc = order s (orderElt s); adj = pairing s fc;
          s = s\<lparr>permIndices := (permIndices s)(fc := -1)\<rparr>
      in s\<lparr>permIndices := (permIndices s)(adj := -1)\<rparr>)"

text \<open>``We are sitting on a new permutation to try'': the partner face gets the inverse.\<close>

definition mirrorPerm :: "Base \<Rightarrow> NCompactSearcher \<Rightarrow> NCompactSearcher" where
  "mirrorPerm B s =
     (let fc = order s (orderElt s); adj = pairing s fc
      in s\<lparr>permIndices := (permIndices s)(adj := invS3 B (permIndices s fc))\<rparr>)"

text \<open>One pass of the \<^verbatim>\<open>while\<close> loop of \<^verbatim>\<open>runSearch\<close>.\<close>

definition runSearchStep ::
    "Base \<Rightarrow> int \<Rightarrow> int \<Rightarrow> NCompactSearcher \<times> UseArg list
       \<Rightarrow> (NCompactSearcher \<times> UseArg list) option" where
  "runSearchStep B minOrder maxOrder st =
    (let used = snd st;
         fc = order (fst st) (orderElt (fst st));
         adj = pairing (fst st) fc;
         s = nextPerm (fst st)
     in if permIndices s fc \<ge> 6 then stepBack B minOrder (resetPerm s) used
        else
          (case mergeEdgeClasses B (mirrorPerm B s) of
             None \<Rightarrow> None
           | Some (s, invalidEdge) \<Rightarrow>
               if invalidEdge then
                 (case splitEdgeClasses B s of None \<Rightarrow> None | Some s \<Rightarrow> Some (s, used))
               else
                 (case mergeVertexClasses B s of
                    None \<Rightarrow> None
                  | Some (s, mergeResult) \<Rightarrow>
                      if and mergeResult VLINK_NON_SPHERE \<noteq> 0 then
                        (case splitBoth B s of None \<Rightarrow> None | Some s \<Rightarrow> Some (s, used))
                      else moveOn B minOrder maxOrder fc adj s used)))"

text \<open>
  The loop.  Its state is \<open>None\<close> once a call into the link tracking has not returned
  (a walk along parent or boundary pointers that never ends); \<open>while_option\<close> itself
  yields \<open>None\<close> if the loop runs forever.
\<close>

definition runSearchLoop ::
    "Base \<Rightarrow> int \<Rightarrow> int \<Rightarrow> (NCompactSearcher \<times> UseArg list) option
       \<Rightarrow> (NCompactSearcher \<times> UseArg list) option option" where
  "runSearchLoop B minOrder maxOrder =
     while_option
       (\<lambda>st. case st of None \<Rightarrow> False | Some (s, used) \<Rightarrow> orderElt s \<ge> minOrder)
       (\<lambda>st. case st of None \<Rightarrow> None | Some x \<Rightarrow> runSearchStep B minOrder maxOrder x)"

text \<open>
  The depth used when \<^verbatim>\<open>maxDepth\<close> is negative: \<^verbatim>\<open>nTets * 4 + 1\<close>, computed in
  \<^verbatim>\<open>unsigned\<close> arithmetic.
\<close>

definition effectiveDepth :: "NCompactSearcher \<Rightarrow> int \<Rightarrow> int" where
  "effectiveDepth s maxDepth =
     (if maxDepth < 0 then uint (word_of_nat (nTets s) * 4 + 1 :: 32 word) else maxDepth)"

text \<open>
  The bound \<^verbatim>\<open>int maxOrder = orderElt + maxDepth\<close>: the sum is formed in \<^verbatim>\<open>long\<close>
  and stored in an \<^verbatim>\<open>int\<close>, which keeps its value modulo \<open>2\<^sup>3\<^sup>2\<close>.
\<close>

definition maxOrderOf :: "int \<Rightarrow> int \<Rightarrow> int" where
  "maxOrderOf minOrder maxDepth = sint (word_of_int (minOrder + maxDepth) :: 32 word)"

text \<open>
  \<^verbatim>\<open>NCompactSearcher::runSearch\<close>.  The result is the searcher on return with the
  list of callback calls made, \<open>Some None\<close> if a call into the link tracking does not
  return, \<open>None\<close> if the loop does not end.  The sanity check after the loop only
  prints, and is left out.
\<close>

definition runSearch ::
    "Base \<Rightarrow> int \<Rightarrow> NCompactSearcher \<Rightarrow> (NCompactSearcher \<times> UseArg list) option option" where
  "runSearch B maxDepth0 s =
    (let maxDepth = effectiveDepth s maxDepth0
     in if \<not> started s \<and>
           (maxDepth = 0 \<or> isBoundary (pairing s (NTetFace 0 0)) (nTets s)) then
          (let s = s\<lparr>started := True\<rparr> in Some (Some (s, [Searcher s, Null])))
        else
          (let s = (if \<not> started s
                    then s\<lparr>started := True, orderElt := 0,
                           orientation := (orientation s)(0 := 1)\<rparr>
                    else s)
           in if orderElt s = orderSize s then
                Some (Some (s, (if isCanonical B s then [Searcher s] else []) @ [Null]))
              else
                (case runSearchLoop B (orderElt s) (maxOrderOf (orderElt s) maxDepth) (Some (s, [])) of
                   None \<Rightarrow> None
                 | Some None \<Rightarrow> Some None
                 | Some (Some (s, used)) \<Rightarrow> Some (Some (s, used @ [Null])))))"

text \<open>
  The members that the link tracking never writes: the merges and splits only change
  the vertex and edge states, the two \<^verbatim>\<open>Changed\<close> arrays and the class counts.
\<close>

definition ctrl ::
    "NCompactSearcher \<Rightarrow> nat \<times> (NTetFace \<Rightarrow> NTetFace) \<times> bool \<times> bool \<times> (int \<Rightarrow> int)
       \<times> (int \<Rightarrow> NTetFace) \<times> int \<times> int \<times> (NTetFace \<Rightarrow> int)" where
  "ctrl s = (nTets s, pairing s, orientableOnly s, started s, orientation s, order s,
             orderSize s, orderElt s, permIndices s)"



text \<open>
  The order position at which the loop of \<^verbatim>\<open>runSearch\<close> starts: 0 for a search
  that has not started, the stored position for one that resumes.
\<close>

definition startPos :: "NCompactSearcher \<Rightarrow> int" where
  "startPos s = (if started s then orderElt s else 0)"

subsection \<open>Construction\<close>

text \<open>
  The constructor of \<^verbatim>\<open>NCompactSearcher\<close> from a face pairing.  The members set
  by the base-class constructor (the order of the faces, its size, the orientability
  flag) are arguments; every permutation index starts undecided (-1).  The default
  constructors of \<^verbatim>\<open>TetVertexState\<close> and \<^verbatim>\<open>TetEdgeState\<close> are in the absent
  header; a fresh node is a root of rank 0 with no twist, three boundary edges and
  \<open>bdry\<close> 3 (an edge: size 1, bounded), which are the values the sanity check at the
  end of \<^verbatim>\<open>runSearch\<close> expects of ``standalone'' nodes.
\<close>

definition newTetVertexState :: "int \<Rightarrow> TetVertexState" where
  "newTetVertexState i =
     \<lparr>parent = -1, rank = 0, twistUp = False, hadEqualRank = False,
      bdry = 3, bdryEdges = 3, bdryNext = (\<lambda>_. i), bdryTwist = (\<lambda>_. False),
      bdryNextOld = (\<lambda>_. -1), bdryTwistOld = (\<lambda>_. False)\<rparr>"

definition newTetEdgeState :: TetEdgeState where
  "newTetEdgeState =
     \<lparr>parent = -1, rank = 0, twistUp = False, hadEqualRank = False,
      size' = 1, bounded = True\<rparr>"

definition newCompactSearcher ::
    "nat \<Rightarrow> (NTetFace \<Rightarrow> NTetFace) \<Rightarrow> bool \<Rightarrow> (int \<Rightarrow> NTetFace) \<Rightarrow> int \<Rightarrow> NCompactSearcher" where
  "newCompactSearcher n pr orientable ord ordSize =
     \<lparr>nTets = n, pairing = pr, orientableOnly = orientable, started = False,
      orientation = (\<lambda>_. 0), order = ord, orderSize = ordSize, orderElt = 0,
      permIndices = (\<lambda>_. -1),
      nVertexClasses = word_of_nat (n * 4),
      vertexState = newTetVertexState,
      vertexStateChanged = (\<lambda>_. -1),
      nEdgeClasses = word_of_nat (n * 6),
      edgeState = (\<lambda>_. newTetEdgeState),
      edgeStateChanged = (\<lambda>_. -1)\<rparr>"

subsection \<open>Reading a searcher back from a stream\<close>

text \<open>
  The input stream is the list of its integer tokens (what \<^verbatim>\<open>dumpData\<close> writes,
  ending in a line end, so that reading the last token does not set the end-of-file
  flag).  \<^verbatim>\<open>in >> x\<close> takes the next token.  When the tokens run out, or a token
  read into an \<^verbatim>\<open>unsigned\<close> does not fit, the extraction fails and the checks that
  follow would read variables that were never set: the model's value is \<open>None\<close> there.
  A value stored into an unsigned char or a char is narrowed to its low 8 bits.
\<close>

definition fitsUnsigned :: "int \<Rightarrow> bool" where
  "fitsUnsigned x = (0 \<le> x \<and> x < 2 ^ 32)"

definition asBool :: "int \<Rightarrow> bool" where
  "asBool x = (x mod 256 \<noteq> 0)"

text \<open>
  \<^verbatim>\<open>TetVertexState::readData\<close>: the node as read, and whether the checks accept
  it.
\<close>

definition vtxReadData :: "int list \<Rightarrow> nat \<Rightarrow> (bool \<times> TetVertexState \<times> int list) option" where
  "vtxReadData ts nStates =
    (case ts of
       parent' # rank' # bdry' # twist # bRank # bEdges # next0 # next1 # tw0 # tw1
         # nextOld0 # nextOld1 # twOld0 # twOld1 # rest \<Rightarrow>
         if \<not> (fitsUnsigned rank' \<and> fitsUnsigned bdry') then None
         else
           (let n = \<lparr>parent = parent', rank = word_of_int rank', twistUp = asBool twist,
                     hadEqualRank = (bRank \<noteq> 0),
                     bdry = word_of_int bdry', bdryEdges = word_of_int bEdges,
                     bdryNext = (\<lambda>e. if e then next1 else next0),
                     bdryTwist = (\<lambda>e. if e then asBool tw1 else asBool tw0),
                     bdryNextOld = (\<lambda>e. if e then nextOld1 else nextOld0),
                     bdryTwistOld = (\<lambda>e. if e then asBool twOld1 else asBool twOld0)\<rparr>;
                ok =
                 (if parent' < -1 \<or> parent' \<ge> int nStates then False
                  else if rank' \<ge> int nStates then False
                  else if bdry' > 3 * int nStates then False
                  else if twist \<noteq> 1 \<and> twist \<noteq> 0 then False
                  else if bRank \<noteq> 1 \<and> bRank \<noteq> 0 then False
                  else if bEdges mod 256 > 3 then False
                  else if next0 < 0 \<or> next0 \<ge> int nStates then False
                  else if next1 < 0 \<or> next1 \<ge> int nStates then False
                  else if nextOld0 < -1 \<or> next0 \<ge> int nStates then False
                  else if nextOld1 < -1 \<or> nextOld1 \<ge> int nStates then False
                  else if tw0 mod 256 \<noteq> 0 \<and> tw0 mod 256 \<noteq> 1 then False
                  else if tw1 mod 256 \<noteq> 0 \<and> tw1 mod 256 \<noteq> 1 then False
                  else if twOld0 mod 256 \<noteq> 0 \<and> twOld0 mod 256 \<noteq> 1 then False
                  else if twOld1 mod 256 \<noteq> 0 \<and> twOld1 mod 256 \<noteq> 1 then False
                  else True)
            in Some (ok, n, rest))
     | _ \<Rightarrow> None)"

text \<open>\<^verbatim>\<open>TetEdgeState::readData\<close>.\<close>

definition edgeReadData :: "int list \<Rightarrow> nat \<Rightarrow> (bool \<times> TetEdgeState \<times> int list) option" where
  "edgeReadData ts nStates =
    (case ts of
       parent' # rank' # sz # bBounded # twist # bRank # rest \<Rightarrow>
         if \<not> (fitsUnsigned rank' \<and> fitsUnsigned sz) then None
         else
           (let n = \<lparr>parent = parent', rank = word_of_int rank', twistUp = asBool twist,
                     hadEqualRank = (bRank \<noteq> 0),
                     size' = word_of_int sz, bounded = (bBounded \<noteq> 0)\<rparr>;
                ok =
                 (if parent' < -1 \<or> parent' \<ge> int nStates then False
                  else if rank' \<ge> int nStates then False
                  else if sz \<ge> int nStates then False
                  else if bBounded \<noteq> 1 \<and> bBounded \<noteq> 0 then False
                  else if twist \<noteq> 1 \<and> twist \<noteq> 0 then False
                  else if bRank \<noteq> 1 \<and> bRank \<noteq> 0 then False
                  else True)
            in Some (ok, n, rest))
     | _ \<Rightarrow> None)"

text \<open>
  What the stream constructor leaves behind: the error flag and the members as far as
  they were filled in.
\<close>

record Resumed =
  inputError :: bool
  rNVertexClasses :: "32 word"
  rVertexState :: "TetVertexState list"
  rVertexStateChanged :: "int list"
  rNEdgeClasses :: "32 word"
  rEdgeState :: "TetEdgeState list"
  rEdgeStateChanged :: "int list"

text \<open>
  The loops of the constructor: \<open>k\<close> more nodes (or entries) are to be read; the
  result is the flag ``no error'', what was read, and the rest of the stream.
\<close>

fun readVertexStates ::
    "nat \<Rightarrow> nat \<Rightarrow> int list \<Rightarrow> TetVertexState list \<Rightarrow> (bool \<times> TetVertexState list \<times> int list) option" where
  "readVertexStates 0 nStates ts acc = Some (True, acc, ts)"
| "readVertexStates (Suc k) nStates ts acc =
     (case vtxReadData ts nStates of
        None \<Rightarrow> None
      | Some (ok, n, rest) \<Rightarrow>
          if \<not> ok then Some (False, acc @ [n], rest)
          else readVertexStates k nStates rest (acc @ [n]))"

fun readEdgeStates ::
    "nat \<Rightarrow> nat \<Rightarrow> int list \<Rightarrow> TetEdgeState list \<Rightarrow> (bool \<times> TetEdgeState list \<times> int list) option" where
  "readEdgeStates 0 nStates ts acc = Some (True, acc, ts)"
| "readEdgeStates (Suc k) nStates ts acc =
     (case edgeReadData ts nStates of
        None \<Rightarrow> None
      | Some (ok, n, rest) \<Rightarrow>
          if \<not> ok then Some (False, acc @ [n], rest)
          else readEdgeStates k nStates rest (acc @ [n]))"

fun readChanged ::
    "nat \<Rightarrow> int \<Rightarrow> int list \<Rightarrow> int list \<Rightarrow> (bool \<times> int list \<times> int list) option" where
  "readChanged 0 bound ts acc = Some (True, acc, ts)"
| "readChanged (Suc k) bound [] acc = None"
| "readChanged (Suc k) bound (x # rest) acc =
     (if x < -1 \<or> x \<ge> bound then Some (False, acc @ [x], rest)
      else readChanged k bound rest (acc @ [x]))"

text \<open>
  \<^verbatim>\<open>NCompactSearcher::NCompactSearcher(std::istream&, ...)\<close>.  The base-class
  constructor has read its part of the stream before: its error flag, the number of
  tetrahedra and the tokens it left are the arguments.
\<close>

definition readCompactSearcher :: "bool \<Rightarrow> nat \<Rightarrow> int list \<Rightarrow> Resumed option" where
  "readCompactSearcher baseError n ts =
    (let r0 = \<lparr>inputError = baseError, rNVertexClasses = 0, rVertexState = [],
               rVertexStateChanged = [], rNEdgeClasses = 0, rEdgeState = [],
               rEdgeStateChanged = []\<rparr>
     in if baseError then Some r0
        else case ts of
          [] \<Rightarrow> None
        | nvc # ts \<Rightarrow>
          if \<not> fitsUnsigned nvc then None
          else
            (let r1 = r0\<lparr>rNVertexClasses := word_of_int nvc\<rparr>
             in if nvc > 4 * int n then Some (r1\<lparr>inputError := True\<rparr>)
                else case readVertexStates (4 * n) (4 * n) ts [] of
                  None \<Rightarrow> None
                | Some (ok, vs, ts) \<Rightarrow>
                  (let r2 = r1\<lparr>rVertexState := vs\<rparr>
                   in if \<not> ok then Some (r2\<lparr>inputError := True\<rparr>)
                      else case readChanged (8 * n) (4 * int n) ts [] of
                        None \<Rightarrow> None
                      | Some (ok, vc, ts) \<Rightarrow>
                        (let r3 = r2\<lparr>rVertexStateChanged := vc\<rparr>
                         in if \<not> ok then Some (r3\<lparr>inputError := True\<rparr>)
                            else case ts of
                              [] \<Rightarrow> None
                            | nec # ts \<Rightarrow>
                              if \<not> fitsUnsigned nec then None
                              else
                                (let r4 = r3\<lparr>rNEdgeClasses := word_of_int nec\<rparr>
                                 in if nec > 6 * int n then Some (r4\<lparr>inputError := True\<rparr>)
                                    else case readEdgeStates (6 * n) (6 * n) ts [] of
                                      None \<Rightarrow> None
                                    | Some (ok, es, ts) \<Rightarrow>
                                      (let r5 = r4\<lparr>rEdgeState := es\<rparr>
                                       in if \<not> ok then Some (r5\<lparr>inputError := True\<rparr>)
                                          else case readChanged (8 * n) (6 * int n) ts [] of
                                            None \<Rightarrow> None
                                          | Some (ok, ec, ts) \<Rightarrow>
                                            (let r6 = r5\<lparr>rEdgeStateChanged := ec\<rparr>
                                             in if \<not> ok then Some (r6\<lparr>inputError := True\<rparr>)
                                                else Some r6)))))))"

text \<open>
  A dump of a one-tetrahedron searcher whose first vertex has the backup link
  \<^verbatim>\<open>bdryNextOld[0]\<close> equal to 4, which is \<^verbatim>\<open>nStates\<close> and so not an index of
  \<^verbatim>\<open>vertexState\<close>; everything else is the fresh state.
\<close>

definition badBackupDump :: "int list" where
  "badBackupDump =
     [4] @
     [-1, 0, 3, 0, 0, 3, 0, 0, 0, 0, 4, -1, 0, 0] @
     [-1, 0, 3, 0, 0, 3, 1, 1, 0, 0, -1, -1, 0, 0] @
     [-1, 0, 3, 0, 0, 3, 2, 2, 0, 0, -1, -1, 0, 0] @
     [-1, 0, 3, 0, 0, 3, 3, 3, 0, 0, -1, -1, 0, 0] @
     [-1, -1, -1, -1, -1, -1, -1, -1] @
     [6] @
     [-1, 0, 1, 1, 0, 0] @ [-1, 0, 1, 1, 0, 0] @ [-1, 0, 1, 1, 0, 0] @
     [-1, 0, 1, 1, 0, 0] @ [-1, 0, 1, 1, 0, 0] @ [-1, 0, 1, 1, 0, 0] @
     [-1, -1, -1, -1, -1, -1, -1, -1]"

subsection \<open>The chain-collapsing searcher\<close>

text \<open>
  \<^verbatim>\<open>NCollapsedChainSearcher\<close> of \<^verbatim>\<open>collapsechain.cpp\<close>, as far as \<^verbatim>\<open>runSearch\<close>
  and \<^verbatim>\<open>extendTri\<close> use it: the original pairing \<^verbatim>\<open>pairing_\<close>, the permutation
  indices, the array \<^verbatim>\<open>order\<close> with the position \<^verbatim>\<open>orderElt\<close>, the number
  \<^verbatim>\<open>maxOrder\<close> of positions that the constructor filled with the faces of the
  chains, the permutation choices \<^verbatim>\<open>chainPermIndices\<close> it recorded, and the
  size of the pairing \<^verbatim>\<open>modified\<close>.
\<close>

record NCollapsedChainSearcher =
  cPairing :: "NTetFace \<Rightarrow> NTetFace"
  cPermIndices :: "NTetFace \<Rightarrow> int"
  cOrder :: "int \<Rightarrow> NTetFace"
  cOrderElt :: int
  maxOrder :: int
  chainPermIndices :: "int \<Rightarrow> int"
  modifiedSize :: nat

text \<open>
  An index below 0 is outside every array; reading \<^verbatim>\<open>order\<close> there is the one
  fault that the model records.  A call of a callback hands over a searcher or the
  null pointer.
\<close>

datatype Fault = OrderIndexOutOfRange

datatype 'a ChainUse = Found 'a | NullSearcher

text \<open>
  The \<^verbatim>\<open>while\<close> loop of \<^verbatim>\<open>extendTri\<close>.  It has no other exit than
  \<^verbatim>\<open>orderElt\<close> reaching \<^verbatim>\<open>maxOrder\<close>, it calls nothing, and the triangulation
  passed to \<^verbatim>\<open>extendTri\<close> is not used.  The value is \<open>None\<close> if the loop runs
  forever.
\<close>

partial_function (option) extendTriLoop ::
    "NCollapsedChainSearcher \<Rightarrow> (Fault + NCollapsedChainSearcher) option" where
  "extendTriLoop s =
     (if cOrderElt s < maxOrder s then
        (if cOrderElt s < 0 then Some (Inl OrderIndexOutOfRange)
         else
           (let fc = cOrder s (cOrderElt s); adj = cPairing s fc
            in if cPermIndices s fc < 0 then
                 extendTriLoop
                   (s\<lparr>cPermIndices := (cPermIndices s)
                        (fc := chainPermIndices s (2 * cOrderElt s))\<rparr>)
               else if cPermIndices s fc = chainPermIndices s (cOrderElt s) then
                 extendTriLoop
                   (s\<lparr>cPermIndices := (cPermIndices s)
                        (fc := chainPermIndices s (2 * cOrderElt s + 1))\<rparr>)
               else
                 extendTriLoop
                   (s\<lparr>cPermIndices := (cPermIndices s)(fc := -1, adj := -1),
                      cOrderElt := cOrderElt s - 1\<rparr>)))
      else Some (Inr s))"

declare extendTriLoop.simps [code]

definition extendTri :: "NCollapsedChainSearcher \<Rightarrow> (Fault + NCollapsedChainSearcher) option" where
  "extendTri s = extendTriLoop (s\<lparr>cOrderElt := 0\<rparr>)"

text \<open>
  \<^verbatim>\<open>NCollapsedChainSearcher::runSearch\<close>.  The searcher
  \<^verbatim>\<open>NClosedPrimeMinSearcher\<close> that it runs is not among the sources; what it does
  is a parameter: \<open>direct\<close> is the list of calls of the outer callback that it makes
  when run on the original pairing, \<open>inner\<close> the list of calls of
  \<^verbatim>\<open>extendTriHelper\<close> that it makes when run on the pairing \<^verbatim>\<open>modified\<close>.
  \<^verbatim>\<open>extendTriHelper\<close> does not look at the searcher it is handed: every call is one
  call of \<^verbatim>\<open>extendTri\<close>.  The result is the fault, or the searcher on return with
  the calls of the outer callback.
\<close>

fun extendTriHelper ::
    "'b list \<Rightarrow> NCollapsedChainSearcher \<Rightarrow> (Fault + NCollapsedChainSearcher) option" where
  "extendTriHelper [] s = Some (Inr s)"
| "extendTriHelper (c # cs) s =
     (case extendTri s of
        None \<Rightarrow> None
      | Some (Inl f) \<Rightarrow> Some (Inl f)
      | Some (Inr s') \<Rightarrow> extendTriHelper cs s')"

definition runSearchChain ::
    "'a ChainUse list \<Rightarrow> 'b list \<Rightarrow> NCollapsedChainSearcher
       \<Rightarrow> (Fault + NCollapsedChainSearcher \<times> 'a ChainUse list) option" where
  "runSearchChain direct inner s =
     (if modifiedSize s < 3 then Some (Inr (s, direct @ [NullSearcher]))
      else
        (case extendTriHelper inner s of
           None \<Rightarrow> None
         | Some (Inl f) \<Rightarrow> Some (Inl f)
         | Some (Inr s') \<Rightarrow> Some (Inr (s', [NullSearcher]))))"

subsection \<open>An instance of the absent parts\<close>

text \<open>
  The examples below run the model on the tables of the Regina calculation engine:
  the six edges of a tetrahedron numbered 01, 02, 03, 12, 13, 23, the permutations
  \<^verbatim>\<open>NPerm::S3\<close> in the order 012, 021, 120, 102, 201, 210 (even and odd alternating),
  and the gluing permutation of a face \<open>f\<close> glued to \<open>a\<close> with index \<open>i\<close> being
  \<open>(a 3) \<circ> S3[i] \<circ> (f 3)\<close>.  The theorems do not depend on this instance.
\<close>

definition swap3 :: "int \<Rightarrow> int \<Rightarrow> int" where
  "swap3 a x = (if x = a then 3 else if x = 3 then a else x)"

definition S3 :: "int \<Rightarrow> int \<Rightarrow> int" where
  "S3 i x = [[0, 1, 2, 3], [0, 2, 1, 3], [1, 2, 0, 3], [1, 0, 2, 3], [2, 0, 1, 3], [2, 1, 0, 3]]
              ! nat i ! nat x"

definition permSign :: "NPerm \<Rightarrow> int" where
  "permSign p =
     (if even (length (filter (\<lambda>ab. p (fst ab) > p (snd ab))
                 [(0, 1), (0, 2), (0, 3), (1, 2), (1, 3), (2, 3)]))
      then 1 else -1)"

definition reginaVtxBdryNext ::
    "NCompactSearcher \<Rightarrow> int \<Rightarrow> int \<Rightarrow> int \<Rightarrow> int \<Rightarrow> (bool \<Rightarrow> int) \<times> (bool \<Rightarrow> bool)" where
  "reginaVtxBdryNext s vertexID t vertex bdryFace =
    (let n = vertexState s vertexID;
         keep0 = ((\<lambda>e. if e then vertexID else bdryNext n False),
                  (\<lambda>e. if e then False else bdryTwist n False));
         keep1 = ((\<lambda>e. if e then bdryNext n True else vertexID),
                  (\<lambda>e. if e then bdryTwist n True else False))
     in if bdryEdges n = 3 then ((\<lambda>_. vertexID), (\<lambda>_. False))
        else if bdryEdges n = 2 then
          (if permIndices s (NTetFace t (vertexLinkNextFace vertex bdryFace)) < 0 then keep0
           else if permIndices s (NTetFace t (vertexLinkPrevFace vertex bdryFace)) < 0 then keep1
           else
             (let ghostFace = (if bdryFace = face (order s (orderElt s))
                               then face (pairing s (order s (orderElt s)))
                               else face (order s (orderElt s)))
              in if vertexLinkNextFace vertex bdryFace = ghostFace then keep0 else keep1))
        else (bdryNext n, bdryTwist n))"

definition regina :: Base where
  "regina =
     \<lparr>gluingPermOf = (\<lambda>fc adj i x. swap3 (face adj) (S3 i (swap3 (face fc) x))),
      sign = permSign,
      invS3 = (\<lambda>i. [0, 1, 4, 3, 2, 5] ! nat i),
      isCanonical = (\<lambda>_. True),
      edgeNumber = (\<lambda>a b. [[-1, 0, 1, 2], [0, -1, 3, 4], [1, 3, -1, 5], [2, 4, 5, -1]]
                             ! nat a ! nat b),
      edgeVertex = (\<lambda>e hi. [[0, 1], [0, 2], [0, 3], [1, 2], [1, 3], [2, 3]]
                             ! nat e ! (if hi then 1 else 0)),
      vtxBdryNext = reginaVtxBdryNext\<rparr>"

text \<open>
  The one-tetrahedron closed pairing: face 0 is glued to face 1 and face 2 to face 3.
\<close>

definition pairing1 :: "NTetFace \<Rightarrow> NTetFace" where
  "pairing1 fc = NTetFace 0 ([1, 0, 3, 2] ! nat (face fc))"

definition order1 :: "int \<Rightarrow> NTetFace" where
  "order1 i = (if i = 0 then NTetFace 0 0 else NTetFace 0 2)"

definition searcher1 :: NCompactSearcher where
  "searcher1 = newCompactSearcher 1 pairing1 False order1 2"

text \<open>
  The state in which \<^verbatim>\<open>runSearch\<close> first calls \<^verbatim>\<open>mergeEdgeClasses\<close> on
  \<open>searcher1\<close>: the search has started and face 0 of the tetrahedron carries the
  permutation index 0; \<open>perm0\<close> is the gluing permutation of that face.
\<close>

definition firstAttempt :: NCompactSearcher where
  "firstAttempt =
     searcher1\<lparr>started := True, orientation := (orientation searcher1)(0 := 1),
               permIndices := (permIndices searcher1)
                 (NTetFace 0 0 := 0, NTetFace 0 1 := invS3 regina 0)\<rparr>"

text \<open>
  The search on \<open>searcher1\<close> as it stands at the top of the loop when five of the six
  permutation indices of the first face have been tried and undone.
\<close>

definition fifthTried :: NCompactSearcher where
  "fifthTried =
     searcher1\<lparr>started := True, orientation := (orientation searcher1)(0 := 1),
               permIndices := (permIndices searcher1)
                 (NTetFace 0 0 := 4, NTetFace 0 1 := invS3 regina 4)\<rparr>"

text \<open>
  The searcher one level down: the state in which the pass of the loop that accepts
  the sixth permutation index of the first face leaves \<open>fifthTried\<close>.  The four
  vertices form one class with root 1, the edges the classes \<open>{0}\<close>, \<open>{1, 4, 5}\<close> and
  \<open>{2, 3}\<close>.
\<close>

definition level1 :: NCompactSearcher where
  "level1 =
     \<lparr>nTets = 1, pairing = pairing1, orientableOnly = False, started = True,
      orientation = (\<lambda>_. 0)(0 := 1), order = order1, orderSize = 2, orderElt = 1,
      permIndices = (\<lambda>_. - 1)(NTetFace 0 0 := 5, NTetFace 0 1 := 5),
      nVertexClasses = 1,
      vertexState = newTetVertexState
        (0 := \<lparr>parent = 2, rank = 0, twistUp = False, hadEqualRank = True,
                 bdry = 3, bdryEdges = 2,
                 bdryNext = (\<lambda>_. 0)(False := 2, True := 3),
                 bdryTwist = (\<lambda>_. False)(False := False, True := True),
                 bdryNextOld = (\<lambda>_. - 1), bdryTwistOld = (\<lambda>_. False)\<rparr>,
         1 := \<lparr>parent = - 1, rank = 2, twistUp = False, hadEqualRank = False,
                 bdry = 6, bdryEdges = 2,
                 bdryNext = (\<lambda>_. 1)(False := 3, True := 2),
                 bdryTwist = (\<lambda>_. False)(False := True, True := False),
                 bdryNextOld = (\<lambda>_. - 1), bdryTwistOld = (\<lambda>_. False)\<rparr>,
         3 := \<lparr>parent = 1, rank = 0, twistUp = True, hadEqualRank = True,
                 bdry = 3, bdryEdges = 1,
                 bdryNext = (\<lambda>_. 3)(False := 1, True := 0),
                 bdryTwist = (\<lambda>_. False)(False := True, True := True),
                 bdryNextOld = (\<lambda>_. 3)(True := 1, False := 1),
                 bdryTwistOld = (\<lambda>_. False)(True := True, False := True)\<rparr>,
         2 := \<lparr>parent = 1, rank = 1, twistUp = False, hadEqualRank = True,
                 bdry = 4, bdryEdges = 1,
                 bdryNext = (\<lambda>_. 2)(True := 0, False := 1),
                 bdryTwist = (\<lambda>_. False)(True := False, False := False),
                 bdryNextOld = (\<lambda>_. 2)(True := 0, False := 0),
                 bdryTwistOld = (\<lambda>_. False)(True := False, False := False)\<rparr>),
      vertexStateChanged = (\<lambda>_. - 1)(1 := 3, 2 := 0, 3 := 2),
      nEdgeClasses = 3,
      edgeState = (\<lambda>_. newTetEdgeState)
        (1 := \<lparr>parent = 5, rank = 0, twistUp = False, hadEqualRank = True,
                 size' = 1, bounded = True\<rparr>,
         4 := \<lparr>parent = 5, rank = 0, twistUp = True, hadEqualRank = False,
                 size' = 1, bounded = True\<rparr>,
         5 := \<lparr>parent = - 1, rank = 1, twistUp = False, hadEqualRank = False,
                 size' = 3, bounded = True\<rparr>,
         2 := \<lparr>parent = 3, rank = 0, twistUp = True, hadEqualRank = True,
                 size' = 1, bounded = True\<rparr>,
         3 := \<lparr>parent = - 1, rank = 1, twistUp = False, hadEqualRank = False,
                 size' = 2, bounded = True\<rparr>),
      edgeStateChanged = (\<lambda>_. - 1)(1 := 1, 2 := 4, 3 := 2)\<rparr>"

text \<open>
  The same searcher when four of the six permutation indices of its second face have
  been tried.
\<close>

definition level1Late :: NCompactSearcher where
  "level1Late =
     level1\<lparr>permIndices := (permIndices level1)(NTetFace 0 2 := 3, NTetFace 0 3 := 3)\<rparr>"

definition perm0 :: NPerm where
  "perm0 = gluingPermOf regina (NTetFace 0 0) (NTetFace 0 1) 0"

text \<open>
  A chain searcher as its constructor leaves it for a pairing of three tetrahedra
  with one chain link: the two faces of the link are at the positions 0 and 1 of
  \<^verbatim>\<open>order\<close>, two different permutation choices are recorded for each, and no
  permutation has been chosen yet.
\<close>

definition chain1 :: NCollapsedChainSearcher where
  "chain1 =
     \<lparr>cPairing = (\<lambda>fc. if tet fc = 0 then NTetFace (if face fc < 2 then 0 else 1) (face fc)
                         else NTetFace 0 (face fc)),
      cPermIndices = (\<lambda>_. - 1),
      cOrder = (\<lambda>i. if i = 0 then NTetFace 0 2 else NTetFace 0 3),
      cOrderElt = 2, maxOrder = 2,
      chainPermIndices = (\<lambda>i. [0, 3, 1, 4] ! nat i),
      modifiedSize = 3\<rparr>"

section \<open>Properties\<close>

subsection \<open>Walking to a representative\<close>

lemma findEdgeClassTw_root:
  "parent (es i) < 0 \<Longrightarrow> findEdgeClassTw es i t = Some (i, t)"
  by (subst findEdgeClassTw.simps) simp

subsection \<open>What the link tracking leaves alone\<close>

lemma ctrl_vsUpd [simp]: "ctrl (vsUpd i g s) = ctrl s"
  by (simp add: ctrl_def vsUpd_def)

lemma ctrl_vtxBdryJoin [simp]: "ctrl (vtxBdryJoin a e b t s) = ctrl s"
  by (simp add: vtxBdryJoin_def Let_def)

lemma ctrl_vtxBdryFixAdj [simp]: "ctrl (vtxBdryFixAdj a s) = ctrl s"
  by (simp add: vtxBdryFixAdj_def Let_def)

lemma ctrl_vtxBdryBackup [simp]: "ctrl (vtxBdryBackup a s) = ctrl s"
  by (simp add: vtxBdryBackup_def)

lemma ctrl_vtxBdryRestore [simp]: "ctrl (vtxBdryRestore a s) = ctrl s"
  by (simp add: vtxBdryRestore_def)

lemma ctrl_vtxBdrySplitRestore [simp]: "ctrl (vtxBdrySplitRestore a s) = ctrl s"
  by (simp add: vtxBdrySplitRestore_def Let_def)

lemma ctrl_upd [simp]:
  "ctrl (s\<lparr>vertexStateChanged := a\<rparr>) = ctrl s"
  "ctrl (s\<lparr>nVertexClasses := b\<rparr>) = ctrl s"
  "ctrl (s\<lparr>edgeState := c\<rparr>) = ctrl s"
  "ctrl (s\<lparr>edgeStateChanged := d\<rparr>) = ctrl s"
  "ctrl (s\<lparr>nEdgeClasses := e\<rparr>) = ctrl s"
  "ctrl (s\<lparr>vertexState := f\<rparr>) = ctrl s"
  by (simp_all add: ctrl_def)

lemma ctrl_vtxBackupBoth [simp]: "ctrl (vtxBackupBoth a b s) = ctrl s"
  by (simp add: vtxBackupBoth_def Let_def)

lemma ctrl_vtxDropEdges [simp]: "ctrl (vtxDropEdges a b s) = ctrl s"
  by (simp add: vtxDropEdges_def Let_def)

lemma ctrl_vtxFoldSelf [simp]: "ctrl (vtxFoldSelf a b s) = ctrl s"
  by (simp add: vtxFoldSelf_def Let_def)

lemma ctrl_vtxSplice [simp]: "ctrl (vtxSplice a b c d e s) = ctrl s"
  by (simp add: vtxSplice_def Let_def)

lemma ctrl_vtxJoinDiff [simp]: "ctrl (vtxJoinDiff B fc adj v w h s) = ctrl s"
  by (simp add: vtxJoinDiff_def Let_def)

lemma ctrl_vtxUnion [simp]: "ctrl (fst (vtxUnion oi a b t sr)) = ctrl (fst sr)"
  by (simp add: vtxUnion_def Let_def)

lemma ctrl_vtxSplitBdry [simp]: "ctrl (vtxSplitBdry a b s) = ctrl s"
  by (simp add: vtxSplitBdry_def Let_def)

lemma ctrl_vtxSplitUnion: "vtxSplitUnion a b s = Some s' \<Longrightarrow> ctrl s' = ctrl s"
  by (auto simp: vtxSplitUnion_def Let_def split: option.splits if_splits)

lemma ctrl_vtxJoinCycle:
  "vtxJoinCycle B fc adj v w h sr = Some sr' \<Longrightarrow> ctrl (fst sr') = ctrl (fst sr)"
  by (auto simp: vtxJoinCycle_def Let_def split: option.splits if_splits)

lemma ctrl_vtxJoinSame:
  "vtxJoinSame B fc adj v w h sr = Some sr' \<Longrightarrow> ctrl (fst sr') = ctrl (fst sr)"
  by (auto simp: vtxJoinSame_def Let_def split: option.splits if_splits dest!: ctrl_vtxJoinCycle)

lemma ctrl_mergeVertexSame:
  "mergeVertexSame B fc adj v w vRep hasTwist parentTwists sr = Some sr' \<Longrightarrow> ctrl (fst sr') = ctrl (fst sr)"
  by (auto simp: mergeVertexSame_def Let_def split: if_splits dest!: ctrl_vtxJoinSame)

lemma ctrl_mergeVertexDiff:
  "ctrl (fst (mergeVertexDiff B fc adj v w vRep wRep hasTwist parentTwists sr)) = ctrl (fst sr)"
  by (simp add: mergeVertexDiff_def Let_def)

lemma ctrl_mergeVertexPair:
  "mergeVertexPair B fc adj p v sr = Some sr' \<Longrightarrow> ctrl (fst sr') = ctrl (fst sr)"
  unfolding mergeVertexPair_def Let_def
  by (auto split: option.splits if_splits simp: ctrl_mergeVertexDiff ctrl_mergeVertexSame)

lemma ctrl_mergeVertexLoop:
  "mergeVertexLoop B fc adj p vs sr = Some sr' \<Longrightarrow> ctrl (fst sr') = ctrl (fst sr)"
  by (induction vs arbitrary: sr) (auto split: if_splits option.splits dest: ctrl_mergeVertexPair)

lemma ctrl_mergeVertexClasses:
  "mergeVertexClasses B s = Some (s', r) \<Longrightarrow> ctrl s' = ctrl s"
  unfolding mergeVertexClasses_def Let_def by (drule ctrl_mergeVertexLoop) simp

lemma ctrl_splitVertexPair:
  "splitVertexPair fc adj p v s = Some s' \<Longrightarrow> ctrl s' = ctrl s"
  by (auto simp: splitVertexPair_def Let_def split: option.splits dest: ctrl_vtxSplitUnion)

lemma ctrl_splitVertexLoop:
  "splitVertexLoop fc adj p vs s = Some s' \<Longrightarrow> ctrl s' = ctrl s"
  by (induction vs arbitrary: s) (auto split: if_splits option.splits dest: ctrl_splitVertexPair)

lemma ctrl_splitVertexClasses:
  "splitVertexClasses B s = Some s' \<Longrightarrow> ctrl s' = ctrl s"
  unfolding splitVertexClasses_def Let_def by (drule ctrl_splitVertexLoop) simp

lemma ctrl_mergeEdgePair:
  "mergeEdgePair B fc adj p v2 sr = Some sr' \<Longrightarrow> ctrl (fst sr') = ctrl (fst sr)"
  by (auto simp: mergeEdgePair_def Let_def split: option.splits if_splits prod.splits)

lemma ctrl_mergeEdgeLoop:
  "mergeEdgeLoop B fc adj p vs sr = Some sr' \<Longrightarrow> ctrl (fst sr') = ctrl (fst sr)"
  by (induction vs arbitrary: sr) (auto split: if_splits option.splits dest: ctrl_mergeEdgePair)

lemma ctrl_mergeEdgeClasses:
  "mergeEdgeClasses B s = Some (s', r) \<Longrightarrow> ctrl s' = ctrl s"
  unfolding mergeEdgeClasses_def Let_def by (drule ctrl_mergeEdgeLoop) simp

lemma ctrl_splitEdgePair:
  "splitEdgePair B fc v2 s = Some s' \<Longrightarrow> ctrl s' = ctrl s"
  by (auto simp: splitEdgePair_def Let_def split: option.splits if_splits)

lemma ctrl_splitEdgeLoop:
  "splitEdgeLoop B fc vs s = Some s' \<Longrightarrow> ctrl s' = ctrl s"
  by (induction vs arbitrary: s) (auto split: if_splits option.splits dest: ctrl_splitEdgePair)

lemma ctrl_splitEdgeClasses:
  "splitEdgeClasses B s = Some s' \<Longrightarrow> ctrl s' = ctrl s"
  unfolding splitEdgeClasses_def by (drule ctrl_splitEdgeLoop) simp


lemma ctrl_splitBoth: "splitBoth B s = Some s' \<Longrightarrow> ctrl s' = ctrl s"
  by (auto simp: splitBoth_def split: option.splits dest!: ctrl_splitVertexClasses ctrl_splitEdgeClasses)

lemma stepBack_Some:
  "stepBack B mn s used = Some (s', used') \<Longrightarrow>
     used' = used \<and> ctrl s' = ctrl (s\<lparr>orderElt := orderElt s - 1\<rparr>)"
  by (auto simp: stepBack_def Let_def split: if_splits option.splits dest!: ctrl_splitBoth)

lemma fixOrientation_fields [simp]:
  "order (fixOrientation fc adj s) = order s"
  "orderSize (fixOrientation fc adj s) = orderSize s"
  "orderElt (fixOrientation fc adj s) = orderElt s"
  "pairing (fixOrientation fc adj s) = pairing s"
  "permIndices (fixOrientation fc adj s) = permIndices s"
  "orientableOnly (fixOrientation fc adj s) = orientableOnly s"
  "nTets (fixOrientation fc adj s) = nTets s"
  "started (fixOrientation fc adj s) = started s"
  by (simp_all add: fixOrientation_def)

lemma startFace_fields [simp]:
  "order (startFace fc s) = order s"
  "orderSize (startFace fc s) = orderSize s"
  "orderElt (startFace fc s) = orderElt s"
  "pairing (startFace fc s) = pairing s"
  "orientation (startFace fc s) = orientation s"
  "orientableOnly (startFace fc s) = orientableOnly s"
  "nTets (startFace fc s) = nTets s"
  "started (startFace fc s) = started s"
  by (simp_all add: startFace_def Let_def)


lemma moveOn_Some:
  assumes m: "moveOn B mn mx fc adj s used = Some (s', used')"
  defines "t \<equiv> (fixOrientation fc adj s)\<lparr>orderElt := orderElt s + 1\<rparr>"
  defines "u \<equiv> startFace (order s (orderElt s + 1)) t"
  shows "if orderElt s + 1 = orderSize s then
           used' = (if isCanonical B t then used @ [Searcher t] else used) \<and>
           ctrl s' = ctrl (t\<lparr>orderElt := orderElt s\<rparr>)
         else if orderElt s + 1 = mx then
           used' = used @ [Searcher u] \<and>
           ctrl s' = ctrl (u\<lparr>permIndices := (permIndices u)(order s (orderElt s + 1) := -1),
                             orderElt := orderElt s\<rparr>)
         else used' = used \<and> s' = u"
proof (cases "orderElt s + 1 = orderSize s")
  case True
  then have "stepBack B mn t (if isCanonical B t then used @ [Searcher t] else used)
               = Some (s', used')"
    using m by (auto simp add: moveOn_def Let_def t_def split: if_splits)
  moreover have os: "orderSize s = orderElt s + 1" using True by simp
  ultimately show ?thesis
    by (auto dest!: stepBack_Some simp: t_def os)
next
  case False
  show ?thesis
  proof (cases "orderElt s + 1 = mx")
    case True
    then have "stepBack B mn
                 (u\<lparr>permIndices := (permIndices u)(order s (orderElt s + 1) := -1)\<rparr>)
                 (used @ [Searcher u]) = Some (s', used')"
      using m False by (auto simp add: moveOn_def Let_def t_def u_def split: if_splits)
    moreover have "mx = orderElt s + 1" using True by simp
    ultimately show ?thesis using False
      by (auto dest!: stepBack_Some simp: t_def u_def)
  next
    case F2: False
    then show ?thesis
      using m False by (simp add: moveOn_def Let_def t_def u_def)
  qed
qed

subsection \<open>One pass of the search loop\<close>

lemma runSearchStep_cases [consumes 1, case_names exhausted invalidEdge nonSphere accepted]:
  assumes st: "runSearchStep B mn mx (s, used) = Some (s', used')"
  obtains
    (exhausted) "permIndices (nextPerm s) (order s (orderElt s)) \<ge> 6"
       "stepBack B mn (resetPerm (nextPerm s)) used = Some (s', used')"
  | (invalidEdge) s3 where "permIndices (nextPerm s) (order s (orderElt s)) < 6"
       "mergeEdgeClasses B (mirrorPerm B (nextPerm s)) = Some (s3, True)"
       "splitEdgeClasses B s3 = Some s'" "used' = used"
  | (nonSphere) s3 s4 r where "permIndices (nextPerm s) (order s (orderElt s)) < 6"
       "mergeEdgeClasses B (mirrorPerm B (nextPerm s)) = Some (s3, False)"
       "mergeVertexClasses B s3 = Some (s4, r)" "and r VLINK_NON_SPHERE \<noteq> 0"
       "splitBoth B s4 = Some s'" "used' = used"
  | (accepted) s3 s4 r where "permIndices (nextPerm s) (order s (orderElt s)) < 6"
       "mergeEdgeClasses B (mirrorPerm B (nextPerm s)) = Some (s3, False)"
       "mergeVertexClasses B s3 = Some (s4, r)" "and r VLINK_NON_SPHERE = 0"
       "moveOn B mn mx (order s (orderElt s)) (pairing s (order s (orderElt s))) s4 used
          = Some (s', used')"
  using st unfolding runSearchStep_def Let_def fst_conv snd_conv
  by (auto split: if_splits option.splits prod.splits bool.splits)

lemma nextPerm_fields [simp]:
  "order (nextPerm s) = order s" "orderSize (nextPerm s) = orderSize s"
  "orderElt (nextPerm s) = orderElt s" "pairing (nextPerm s) = pairing s"
  "orientableOnly (nextPerm s) = orientableOnly s" "nTets (nextPerm s) = nTets s"
  "started (nextPerm s) = started s" "orientation (nextPerm s) = orientation s"
  by (simp_all add: nextPerm_def Let_def)

lemma resetPerm_fields [simp]:
  "order (resetPerm s) = order s" "orderSize (resetPerm s) = orderSize s"
  "orderElt (resetPerm s) = orderElt s" "pairing (resetPerm s) = pairing s"
  "orientableOnly (resetPerm s) = orientableOnly s" "nTets (resetPerm s) = nTets s"
  "started (resetPerm s) = started s" "orientation (resetPerm s) = orientation s"
  by (simp_all add: resetPerm_def Let_def)

lemma mirrorPerm_fields [simp]:
  "order (mirrorPerm B s) = order s" "orderSize (mirrorPerm B s) = orderSize s"
  "orderElt (mirrorPerm B s) = orderElt s" "pairing (mirrorPerm B s) = pairing s"
  "orientableOnly (mirrorPerm B s) = orientableOnly s" "nTets (mirrorPerm B s) = nTets s"
  "started (mirrorPerm B s) = started s" "orientation (mirrorPerm B s) = orientation s"
  by (simp_all add: mirrorPerm_def Let_def)





subsection \<open>The search loop ends\<close>






subsection \<open>The callbacks of a search\<close>

lemma maxOrderOf_small:
  assumes "- (2 ^ 31) \<le> a + d" "a + d < 2 ^ 31"
  shows "maxOrderOf a d = a + d"
proof -
  have "sint (word_of_int (a + d) :: 32 word) = signed_take_bit 31 (a + d)"
    unfolding sint_sbintrunc' by simp
  also have "\<dots> = a + d"
    using assms by (intro signed_take_bit_int_eq_self) simp_all
  finally show ?thesis by (simp only: maxOrderOf_def)
qed




subsection \<open>Running the model on the instance\<close>

lemmas inst_defs = regina_def searcher1_def newCompactSearcher_def newTetEdgeState_def
  newTetVertexState_def pairing1_def order1_def swap3_def S3_def permSign_def firstAttempt_def
  fifthTried_def perm0_def reginaVtxBdryNext_def vertexLinkNextFace_def vertexLinkPrevFace_def
  level1Late_def

lemmas vtx_defs = mergeVertexClasses_def mergeVertexPair_def mergeVertexSame_def
  mergeVertexDiff_def vtxUnion_def vtxJoinDiff_def vtxJoinSame_def vtxJoinCycle_def
  vtxSplice_def vtxFoldSelf_def vtxDropEdges_def vtxBackupBoth_def vtxBdryJoin_def
  vtxBdryBackup_def vtxBdryLength1_def vtxBdryLength2_def vsUpd_def vtxHasTwist_def
  gluingPerm_def VLINK_CLOSED_def VLINK_NON_SPHERE_def splitVertexClasses_def
  splitVertexPair_def vtxSplitUnion_def vtxSplitBdry_def vtxBdrySplitRestore_def
  vtxBdryFixAdj_def vtxBdryRestore_def

lemmas edge_defs = mergeEdgeClasses_def mergeEdgePair_def splitEdgeClasses_def splitEdgePair_def

lemmas find_simps = vtxFindRep.simps vtxBdryScan.simps vtxFindRoot.simps
  findEdgeClassTw.simps findEdgeClass.simps

lemmas run_defs = runSearchStep_def nextPerm_def resetPerm_def mirrorPerm_def moveOn_def
  stepBack_def splitBoth_def fixOrientation_def startFace_def runSearch_def runSearchLoop_def
  effectiveDepth_def isBoundary_def maxOrderOf_def

lemma runSearchStep_accepted:
  assumes "permIndices (nextPerm s) (order s (orderElt s)) < 6"
      and "mergeEdgeClasses B (mirrorPerm B (nextPerm s)) = Some (s3, False)"
      and "mergeVertexClasses B s3 = Some (s4, r)"
      and "and r VLINK_NON_SPHERE = 0"
  shows "runSearchStep B mn mx (s, used)
           = moveOn B mn mx (order s (orderElt s)) (pairing s (order s (orderElt s))) s4 used"
  using assms by (simp add: runSearchStep_def Let_def)

lemma level1_reached: "runSearchStep regina 0 5 (fifthTried, []) = Some (level1, [])"
  by (simp add: level1_def run_defs inst_defs vtx_defs edge_defs Let_def find_simps)

lemma level1_facts:
  "orderElt level1 = 1" "orderSize level1 = 2" "started level1"
  "nTets level1 = 1" "order level1 1 = NTetFace 0 2"
  "permIndices (nextPerm level1) (NTetFace 0 2) = 0"
  by (simp_all add: level1_def nextPerm_def inst_defs)

lemma level1_merges:
  "case mergeEdgeClasses regina (mirrorPerm regina (nextPerm level1)) of
     Some (s3, bad) \<Rightarrow> \<not> bad \<and> (case mergeVertexClasses regina s3 of
            Some (s4, r) \<Rightarrow> r = VLINK_CLOSED | None \<Rightarrow> False)
   | None \<Rightarrow> False"
  by (simp add: level1_def run_defs inst_defs vtx_defs edge_defs Let_def find_simps)

lemma level1_step:
  "map_option (\<lambda>r. (orderElt (fst r), map isNull (snd r)))
     (runSearchStep regina 1 5 (level1, [])) = Some (1, [False])"
  by (simp add: level1_def run_defs inst_defs vtx_defs edge_defs Let_def find_simps)



subsection \<open>A closed vertex link\<close>

text \<open>
  Claim C9.  In a pass of the loop that has a permutation to try, the branch that
  pulls the merge apart and goes on to the next permutation is taken exactly when
  the edge merge reports an invalid edge or the result of the vertex merge has the
  bit \<^verbatim>\<open>VLINK_NON_SPHERE\<close>; the bit \<^verbatim>\<open>VLINK_CLOSED\<close> (which is another bit) plays
  no part.  Otherwise, with \<open>t\<close> the merged searcher after \<^verbatim>\<open>orderElt++\<close>: at the end
  of the order the callback is called with \<open>t\<close> if \<open>t\<close> is canonical, and the searcher
  steps back; at the depth bound the callback is called and the searcher steps
  back; otherwise the search is one level deeper, on the merged link state, with no
  call made.
\<close>

theorem C9_closed_link_accepted:
  fixes B :: Base and s s3 s4 :: NCompactSearcher
  defines "fc \<equiv> order s (orderElt s)"
  defines "t \<equiv> (fixOrientation fc (pairing s fc) s4)\<lparr>orderElt := orderElt s + 1\<rparr>"
  defines "u \<equiv> startFace (order s (orderElt s + 1)) t"
  assumes idx: "permIndices (nextPerm s) fc < 6"
      and e: "mergeEdgeClasses B (mirrorPerm B (nextPerm s)) = Some (s3, invalidEdge)"
      and v: "invalidEdge \<or> mergeVertexClasses B s3 = Some (s4, r)"
  shows "runSearchStep B mn mx (s, used) =
           (if invalidEdge then map_option (\<lambda>s'. (s', used)) (splitEdgeClasses B s3)
            else if and r VLINK_NON_SPHERE \<noteq> 0
              then map_option (\<lambda>s'. (s', used)) (splitBoth B s4)
            else if orderElt s + 1 = orderSize s then
              stepBack B mn t (if isCanonical B t then used @ [Searcher t] else used)
            else if orderElt s + 1 = mx then
              stepBack B mn (u\<lparr>permIndices := (permIndices u)(order s (orderElt s + 1) := -1)\<rparr>)
                (used @ [Searcher u])
            else Some (u, used)) \<and>
         and VLINK_CLOSED VLINK_NON_SPHERE = 0 \<and>
         orderElt u = orderElt s + 1 \<and>
         vertexState u = vertexState s4 \<and> edgeState u = edgeState s4 \<and>
         nVertexClasses u = nVertexClasses s4 \<and> nEdgeClasses u = nEdgeClasses s4 \<and>
         vertexStateChanged u = vertexStateChanged s4 \<and>
         edgeStateChanged u = edgeStateChanged s4"
proof -
  have ns: "and VLINK_CLOSED VLINK_NON_SPHERE = 0"
    by (simp add: VLINK_CLOSED_def VLINK_NON_SPHERE_def)
  have u: "orderElt u = orderElt s + 1 \<and>
         vertexState u = vertexState s4 \<and> edgeState u = edgeState s4 \<and>
         nVertexClasses u = nVertexClasses s4 \<and> nEdgeClasses u = nEdgeClasses s4 \<and>
         vertexStateChanged u = vertexStateChanged s4 \<and>
         edgeStateChanged u = edgeStateChanged s4"
    by (simp add: u_def t_def startFace_def fixOrientation_def Let_def)
  have "runSearchStep B mn mx (s, used) =
           (if invalidEdge then map_option (\<lambda>s'. (s', used)) (splitEdgeClasses B s3)
            else if and r VLINK_NON_SPHERE \<noteq> 0
              then map_option (\<lambda>s'. (s', used)) (splitBoth B s4)
            else if orderElt s + 1 = orderSize s then
              stepBack B mn t (if isCanonical B t then used @ [Searcher t] else used)
            else if orderElt s + 1 = mx then
              stepBack B mn (u\<lparr>permIndices := (permIndices u)(order s (orderElt s + 1) := -1)\<rparr>)
                (used @ [Searcher u])
            else Some (u, used))"
  proof (cases invalidEdge)
    case True
    then show ?thesis
      using idx e by (simp add: runSearchStep_def Let_def fc_def split: option.splits)
  next
    case False
    with v have v': "mergeVertexClasses B s3 = Some (s4, r)" by simp
    show ?thesis
    proof (cases "and r VLINK_NON_SPHERE = 0")
      case ok: True
      from e False have e': "mergeEdgeClasses B (mirrorPerm B (nextPerm s)) = Some (s3, False)"
        by simp
      have m: "runSearchStep B mn mx (s, used) = moveOn B mn mx fc (pairing s fc) s4 used"
        unfolding fc_def using idx [unfolded fc_def] e' v' ok
        by (rule runSearchStep_accepted)
      have c4: "ctrl s4 = ctrl (mirrorPerm B (nextPerm s))"
        using ctrl_mergeEdgeClasses [OF e] ctrl_mergeVertexClasses [OF v'] by simp
      then have f4: "orderElt s4 = orderElt s" "orderSize s4 = orderSize s" "order s4 = order s"
        by (simp_all add: ctrl_def)
      have "moveOn B mn mx fc (pairing s fc) s4 used =
           (if orderElt s + 1 = orderSize s then
              stepBack B mn t (if isCanonical B t then used @ [Searcher t] else used)
            else if orderElt s + 1 = mx then
              stepBack B mn (u\<lparr>permIndices := (permIndices u)(order s (orderElt s + 1) := -1)\<rparr>)
                (used @ [Searcher u])
            else Some (u, used))"
        by (simp add: moveOn_def Let_def t_def u_def f4)
      with m False ok show ?thesis by simp
    next
      case bad: False
      then show ?thesis
        using idx e False v'
        by (simp add: runSearchStep_def Let_def fc_def split: option.splits)
    qed
  qed
  with ns u show ?thesis by simp
qed

text \<open>
  The pass on \<open>level1\<close>: the vertex merge closes the one vertex link and returns
  \<^verbatim>\<open>VLINK_CLOSED\<close>; the assignment is complete, and the callback is called with the
  merged state.
\<close>

theorem C9_witness:
  "permIndices (nextPerm level1) (order level1 (orderElt level1)) < 6 \<and>
   (\<exists>s3 s4 s' c.
      mergeEdgeClasses regina (mirrorPerm regina (nextPerm level1)) = Some (s3, False) \<and>
      mergeVertexClasses regina s3 = Some (s4, VLINK_CLOSED) \<and>
      runSearchStep regina 1 5 (level1, []) = Some (s', [Searcher c]) \<and>
      orderElt c = orderSize level1 \<and> vertexState c = vertexState s4 \<and>
      edgeState c = edgeState s4 \<and> orderElt s' = orderElt level1)"
proof -
  have idx: "permIndices (nextPerm level1) (order level1 (orderElt level1)) < 6"
    by (simp add: level1_facts)
  from level1_merges obtain s3 s4 where
      e: "mergeEdgeClasses regina (mirrorPerm regina (nextPerm level1)) = Some (s3, False)"
      and v: "mergeVertexClasses regina s3 = Some (s4, VLINK_CLOSED)"
    by (auto split: option.splits prod.splits)
  from v have v': "False \<or> mergeVertexClasses regina s3 = Some (s4, VLINK_CLOSED)"
    by simp
  from level1_step obtain s' used' where
      st: "runSearchStep regina 1 5 (level1, []) = Some (s', used')"
    by auto
  let ?fc = "order level1 (orderElt level1)"
  let ?t = "(fixOrientation ?fc (pairing level1 ?fc) s4)\<lparr>orderElt := orderElt level1 + 1\<rparr>"
  have can: "isCanonical regina x" for x
    by (simp add: regina_def)
  from C9_closed_link_accepted [OF idx e v', of 1 5 "[]"] st
  have sb: "stepBack regina 1 ?t [Searcher ?t] = Some (s', used')"
    by (simp add: level1_facts can)
  from stepBack_Some [OF sb] have "used' = [Searcher ?t]" "orderElt s' = orderElt level1"
    by (simp_all add: ctrl_def)
  moreover have "orderElt ?t = orderSize level1" "vertexState ?t = vertexState s4"
      "edgeState ?t = edgeState s4"
    by (simp_all add: level1_facts fixOrientation_def)
  ultimately show ?thesis using idx e v st by blast
qed

subsection \<open>Negative depth\<close>

lemma unat_small: "m < 2 ^ 32 \<Longrightarrow> unat (word_of_nat m :: 32 word) = m"
  by (simp add: unat_of_nat)

lemma effectiveDepth_negative:
  assumes "maxDepth < 0" "nTets s < 2 ^ 30"
  shows "effectiveDepth s maxDepth = 4 * int (nTets s) + 1"
proof -
  have lt: "nTets s * 4 + 1 < 2 ^ 32" using assms(2) by simp
  have w: "(word_of_nat (nTets s) * 4 + 1 :: 32 word) = word_of_nat (nTets s * 4 + 1)"
    by simp
  have "uint (word_of_nat (nTets s) * 4 + 1 :: 32 word)
          = int (unat (word_of_nat (nTets s * 4 + 1) :: 32 word))"
    unfolding w by (rule uint_nat)
  also have "\<dots> = int (nTets s * 4 + 1)"
    by (simp only: unat_small [OF lt])
  finally show ?thesis using assms(1) by (simp add: effectiveDepth_def)
qed

lemma runSearchStep_unbounded:
  assumes st: "runSearchStep B mn mx (t, used) = Some (t', used')"
      and k: "orderElt t < orderSize t" and mx: "orderSize t < mx"
  shows "(used' = used \<or>
          (\<exists>c. used' = used @ [Searcher c] \<and> orderElt c = orderSize c \<and> isCanonical B c)) \<and>
         orderElt t' < orderSize t' \<and> orderSize t' = orderSize t"
  using st
proof (cases rule: runSearchStep_cases)
  case exhausted
  from stepBack_Some [OF exhausted(2)] k show ?thesis by (simp add: ctrl_def)
next
  case (invalidEdge s3)
  from ctrl_mergeEdgeClasses [OF invalidEdge(2)] ctrl_splitEdgeClasses [OF invalidEdge(3)]
    invalidEdge(4) k
  show ?thesis by (simp add: ctrl_def)
next
  case (nonSphere s3 s4 r)
  from ctrl_mergeEdgeClasses [OF nonSphere(2)] ctrl_mergeVertexClasses [OF nonSphere(3)]
    ctrl_splitBoth [OF nonSphere(5)] nonSphere(6) k
  show ?thesis by (simp add: ctrl_def)
next
  case (accepted s3 s4 r)
  have c4: "ctrl s4 = ctrl (mirrorPerm B (nextPerm t))"
    using ctrl_mergeEdgeClasses [OF accepted(2)] ctrl_mergeVertexClasses [OF accepted(3)]
    by simp
  then have f4: "orderElt s4 = orderElt t" "orderSize s4 = orderSize t" "order s4 = order t"
    by (simp_all add: ctrl_def)
  from moveOn_Some [OF accepted(5)] f4 k mx
  show ?thesis
    by (auto simp add: ctrl_def split: if_splits)
qed

lemma runSearchLoop_unbounded:
  assumes l: "runSearchLoop B mn mx (Some (s, [])) = Some (Some (s', used'))"
      and k: "orderElt s < orderSize s" and mx: "orderSize s < mx"
  shows "\<exists>cs. used' = map Searcher cs \<and> (\<forall>c \<in> set cs. orderElt c = orderSize c \<and> isCanonical B c)"
proof -
  let ?P = "\<lambda>st :: (NCompactSearcher \<times> UseArg list) option.
              case st of None \<Rightarrow> True
                       | Some (t, u) \<Rightarrow> orderElt t < orderSize t \<and> orderSize t = orderSize s \<and>
                           (\<exists>cs. u = map Searcher cs \<and>
                              (\<forall>c \<in> set cs. orderElt c = orderSize c \<and> isCanonical B c))"
  have "?P (Some (s', used'))"
  proof (rule while_option_rule [where P = ?P, OF _ l [unfolded runSearchLoop_def]])
    show "?P (Some (s, []))" using k by simp
  next
    fix st :: "(NCompactSearcher \<times> UseArg list) option"
    assume P: "?P st"
      and b: "case st of None \<Rightarrow> False | Some (s, used) \<Rightarrow> mn \<le> orderElt s"
    from b obtain t u where st: "st = Some (t, u)" by (auto split: option.splits)
    from P st obtain cs where inv: "orderElt t < orderSize t" "orderSize t = orderSize s"
      and cs: "u = map Searcher cs" "\<forall>c \<in> set cs. orderElt c = orderSize c \<and> isCanonical B c"
      by auto
    show "?P (case st of None \<Rightarrow> None | Some x \<Rightarrow> runSearchStep B mn mx x)"
    proof (cases "runSearchStep B mn mx (t, u)")
      case None
      then show ?thesis by (simp add: st)
    next
      case (Some x)
      obtain t' u' where x: "x = (t', u')" by (cases x)
      from runSearchStep_unbounded [OF Some [unfolded x] inv(1)] mx inv(2)
      have a: "u' = u \<or> (\<exists>c. u' = u @ [Searcher c] \<and> orderElt c = orderSize c \<and> isCanonical B c)"
        and b: "orderElt t' < orderSize t'" "orderSize t' = orderSize t"
        by simp_all
      from a have "\<exists>cs'. u' = map Searcher cs' \<and>
                     (\<forall>c \<in> set cs'. orderElt c = orderSize c \<and> isCanonical B c)"
      proof
        assume "u' = u" with cs show ?thesis by blast
      next
        assume "\<exists>c. u' = u @ [Searcher c] \<and> orderElt c = orderSize c \<and> isCanonical B c"
        then obtain c where c: "u' = u @ [Searcher c]" "orderElt c = orderSize c \<and> isCanonical B c"
          by blast
        show ?thesis
          by (rule exI [of _ "cs @ [c]"]) (use c cs in auto)
      qed
      with b inv show ?thesis by (simp add: st Some x)
    qed
  qed
  then show ?thesis by simp
qed

text \<open>
  Claim C10.  For a negative \<^verbatim>\<open>maxDepth\<close>, on a searcher of fewer than \<open>2\<^sup>2\<^sup>8\<close>
  tetrahedra whose order holds at most one entry per pair of faces: the depth used is
  \<open>4 * nTets + 1\<close>, the bound \<^verbatim>\<open>maxOrder\<close> is the start position plus that, which is
  beyond the end of the order; a pass of the loop from any order position below the
  end of the order makes no call of the callback but, possibly, one with a searcher
  that is at the end of the order and canonical, and leaves the order position below
  the end; and the callbacks of a search that returns are calls with complete
  canonical searchers followed by the call with the null pointer.
\<close>

theorem C10_negative_maxDepth:
  assumes neg: "maxDepth < 0" and n: "nTets s < 2 ^ 28"
      and sz: "orderSize s \<le> 2 * int (nTets s)"
      and pos: "0 \<le> startPos s" and le: "startPos s \<le> orderSize s"
  shows "effectiveDepth s maxDepth = 4 * int (nTets s) + 1 \<and>
     maxOrderOf (startPos s) (effectiveDepth s maxDepth) = startPos s + 4 * int (nTets s) + 1 \<and>
     orderSize s < maxOrderOf (startPos s) (effectiveDepth s maxDepth) \<and>
     (\<forall>t used t' used'.
        orderSize t = orderSize s \<and> orderElt t < orderSize t \<and>
        runSearchStep B (startPos s) (maxOrderOf (startPos s) (effectiveDepth s maxDepth))
          (t, used) = Some (t', used') \<longrightarrow>
        (used' = used \<or>
          (\<exists>c. used' = used @ [Searcher c] \<and> orderElt c = orderSize c \<and> isCanonical B c)) \<and>
        orderElt t' < orderSize t' \<and> orderSize t' = orderSize t) \<and>
     (\<forall>s' used'.
        (started s \<or> \<not> isBoundary (pairing s (NTetFace 0 0)) (nTets s)) \<and>
        runSearch B maxDepth s = Some (Some (s', used')) \<longrightarrow>
        (\<exists>cs. used' = map Searcher cs @ [Null] \<and>
              (\<forall>c \<in> set cs. orderElt c = orderSize c \<and> isCanonical B c)))"
proof (intro conjI allI impI)
  have n30: "nTets s < 2 ^ 30" using n by simp
  show d: "effectiveDepth s maxDepth = 4 * int (nTets s) + 1"
    using neg n30 by (rule effectiveDepth_negative)
  have ni: "int (nTets s) < 2 ^ 28" using n by simp
  show mo: "maxOrderOf (startPos s) (effectiveDepth s maxDepth) = startPos s + 4 * int (nTets s) + 1"
    unfolding d using pos le sz ni
    by (subst maxOrderOf_small) simp_all
  show mx: "orderSize s < maxOrderOf (startPos s) (effectiveDepth s maxDepth)"
    using sz pos by (simp add: mo)
  {
    fix t used t' used'
    assume a: "orderSize t = orderSize s \<and> orderElt t < orderSize t \<and>
        runSearchStep B (startPos s) (maxOrderOf (startPos s) (effectiveDepth s maxDepth))
          (t, used) = Some (t', used')"
    then have "orderSize t < maxOrderOf (startPos s) (effectiveDepth s maxDepth)"
      using mx by simp
    with a runSearchStep_unbounded
    have r: "(used' = used \<or>
          (\<exists>c. used' = used @ [Searcher c] \<and> orderElt c = orderSize c \<and> isCanonical B c)) \<and>
        orderElt t' < orderSize t' \<and> orderSize t' = orderSize t"
      by blast
    from r show "used' = used \<or>
          (\<exists>c. used' = used @ [Searcher c] \<and> orderElt c = orderSize c \<and> isCanonical B c)"
      by simp
    from r show "orderElt t' < orderSize t'" by simp
    from r show "orderSize t' = orderSize t" by simp
  }
  fix s' used'
  assume a: "(started s \<or> \<not> isBoundary (pairing s (NTetFace 0 0)) (nTets s)) \<and>
        runSearch B maxDepth s = Some (Some (s', used'))"
  let ?s1 = "if \<not> started s then s\<lparr>started := True, orderElt := 0,
                                    orientation := (orientation s)(0 := 1)\<rparr> else s"
  have f: "orderElt ?s1 = startPos s" "orderSize ?s1 = orderSize s"
    by (simp_all add: startPos_def)
  have d0: "effectiveDepth s maxDepth \<noteq> 0" by (simp add: d)
  have nshort: "\<not> (\<not> started s \<and>
           (effectiveDepth s maxDepth = 0 \<or> isBoundary (pairing s (NTetFace 0 0)) (nTets s)))"
    using a d0 by auto
  show "\<exists>cs. used' = map Searcher cs @ [Null] \<and>
              (\<forall>c \<in> set cs. orderElt c = orderSize c \<and> isCanonical B c)"
  proof (cases "orderElt ?s1 = orderSize ?s1")
    case True
    then have u: "used' = (if isCanonical B ?s1 then [Searcher ?s1] else []) @ [Null]"
      using a nshort by (auto simp add: runSearch_def Let_def split: if_splits)
    show ?thesis
      by (rule exI [of _ "if isCanonical B ?s1 then [?s1] else []"]) (use u True in auto)
  next
    case False
    then obtain t u where
        l: "runSearchLoop B (orderElt ?s1) (maxOrderOf (orderElt ?s1) (effectiveDepth s maxDepth))
              (Some (?s1, [])) = Some (Some (t, u))"
        and u: "used' = u @ [Null]"
      using a nshort by (auto simp add: runSearch_def Let_def split: if_splits option.splits)
    have k: "orderElt ?s1 < orderSize ?s1" using False le f by simp
    have m: "orderSize ?s1 < maxOrderOf (orderElt ?s1) (effectiveDepth s maxDepth)"
      using mx f by simp
    from runSearchLoop_unbounded [OF l k m] u show ?thesis by auto
  qed
qed

lemma level1Late_run:
  "map_option (map_option (\<lambda>r. (orderElt (fst r),
       map (\<lambda>u. case u of Searcher c \<Rightarrow> (False, orderElt c = orderSize c) | Null \<Rightarrow> (True, False))
         (snd r))))
     (runSearch regina (- 1) level1Late) = Some (Some (0, [(False, True), (True, False)]))"
  by (simp add: level1_def run_defs inst_defs vtx_defs edge_defs Let_def find_simps
      while_option_unfold)

text \<open>
  The search on \<open>level1Late\<close> with \<^verbatim>\<open>maxDepth = -1\<close>: the depth is 5 and the bound 6;
  the fifth permutation index of the second face gives a complete assignment, which
  is handed over, the sixth an invalid edge, and the search returns after the call
  with the null pointer.
\<close>

theorem C10_witness:
  "(- 1 :: int) < 0 \<and> nTets level1Late < 2 ^ 28 \<and>
   orderSize level1Late \<le> 2 * int (nTets level1Late) \<and>
   0 \<le> startPos level1Late \<and> startPos level1Late \<le> orderSize level1Late \<and>
   effectiveDepth level1Late (- 1) = 5 \<and>
   maxOrderOf (startPos level1Late) (effectiveDepth level1Late (- 1)) = 6 \<and>
   started level1Late \<and>
   (\<exists>s' c. runSearch regina (- 1) level1Late = Some (Some (s', [Searcher c, Null])) \<and>
           orderElt c = orderSize c \<and> isCanonical regina c)"
proof -
  have h: "(- 1 :: int) < 0" "nTets level1Late < 2 ^ 28"
      "orderSize level1Late \<le> 2 * int (nTets level1Late)"
      "0 \<le> startPos level1Late" "startPos level1Late \<le> orderSize level1Late"
    by (simp_all add: level1Late_def level1_def startPos_def)
  have st: "started level1Late" "startPos level1Late = 1" "nTets level1Late = 1"
    by (simp_all add: level1Late_def level1_def startPos_def)
  from level1Late_run obtain s' used' where
      r: "runSearch regina (- 1) level1Late = Some (Some (s', used'))"
      and len: "map isNull used' = [False, True]"
    by (auto split: UseArg.splits)
  note c = C10_negative_maxDepth [OF h, of regina]
  have d: "effectiveDepth level1Late (- 1) = 5"
    using c [THEN conjunct1] by (simp add: st)
  have d2: "maxOrderOf (startPos level1Late) (effectiveDepth level1Late (- 1)) = 6"
    using c [THEN conjunct2, THEN conjunct1] by (simp add: st)
  from c st r obtain cs where
      u: "used' = map Searcher cs @ [Null]"
      and cs: "\<forall>c \<in> set cs. orderElt c = orderSize c \<and> isCanonical regina c"
    by blast
  from u len obtain c where "cs = [c]"
    by (cases cs) auto
  with u cs r have "runSearch regina (- 1) level1Late = Some (Some (s', [Searcher c, Null])) \<and>
           orderElt c = orderSize c \<and> isCanonical regina c"
    by simp
  then show ?thesis using h d d2 st by blast
qed

subsection \<open>Merging edge classes\<close>





subsection \<open>Merging vertex classes\<close>

lemma vs_bdry_vtxBdryJoin [simp]:
  "bdry (vertexState (vtxBdryJoin a e b t s) i) = bdry (vertexState s i)"
  by (simp add: vtxBdryJoin_def vsUpd_def Let_def)

lemma vs_bdry_vtxDropEdges [simp]:
  "bdry (vertexState (vtxDropEdges a b s) i) = bdry (vertexState s i)"
  by (simp add: vtxDropEdges_def vsUpd_def Let_def)

lemma vs_bdry_vtxBackupBoth [simp]:
  "bdry (vertexState (vtxBackupBoth a b s) i) = bdry (vertexState s i)"
  by (simp add: vtxBackupBoth_def vtxBdryBackup_def vsUpd_def Let_def)

lemma vs_bdry_vtxFoldSelf [simp]:
  "bdry (vertexState (vtxFoldSelf a h s) i) = bdry (vertexState s i)"
  by (simp add: vtxFoldSelf_def vsUpd_def Let_def)

lemma vs_bdry_vtxSplice [simp]:
  "bdry (vertexState (vtxSplice a b c d h s) i) = bdry (vertexState s i)"
  by (simp add: vtxSplice_def Let_def)


lemma vsc_vsUpd [simp]: "vertexStateChanged (vsUpd i g s) = vertexStateChanged s"
  by (simp add: vsUpd_def)

lemma vsc_vtxBdryJoin [simp]:
  "vertexStateChanged (vtxBdryJoin a e b t s) = vertexStateChanged s"
  by (simp add: vtxBdryJoin_def Let_def)

lemma vsc_vtxDropEdges [simp]:
  "vertexStateChanged (vtxDropEdges a b s) = vertexStateChanged s"
  by (simp add: vtxDropEdges_def Let_def)

lemma vsc_vtxBackupBoth [simp]:
  "vertexStateChanged (vtxBackupBoth a b s) = vertexStateChanged s"
  by (simp add: vtxBackupBoth_def vtxBdryBackup_def Let_def)

lemma vsc_vtxFoldSelf [simp]:
  "vertexStateChanged (vtxFoldSelf a h s) = vertexStateChanged s"
  by (simp add: vtxFoldSelf_def Let_def)

lemma vsc_vtxSplice [simp]:
  "vertexStateChanged (vtxSplice a b c d h s) = vertexStateChanged s"
  by (simp add: vtxSplice_def Let_def)





lemma vs_bdry_vtxJoinDiff [simp]:
  "bdry (vertexState (vtxJoinDiff B fc adj v w h s) i) = bdry (vertexState s i)"
  by (simp add: vtxJoinDiff_def Let_def)

lemma vs_parent_vtxBdryJoin [simp]:
  "parent (vertexState (vtxBdryJoin a e b t s) i) = parent (vertexState s i)"
  by (simp add: vtxBdryJoin_def vsUpd_def Let_def)

lemma vs_parent_vtxDropEdges [simp]:
  "parent (vertexState (vtxDropEdges a b s) i) = parent (vertexState s i)"
  by (simp add: vtxDropEdges_def vsUpd_def Let_def)

lemma vs_parent_vtxBackupBoth [simp]:
  "parent (vertexState (vtxBackupBoth a b s) i) = parent (vertexState s i)"
  by (simp add: vtxBackupBoth_def vtxBdryBackup_def vsUpd_def Let_def)

lemma vs_parent_vtxSplice [simp]:
  "parent (vertexState (vtxSplice a b c d h s) i) = parent (vertexState s i)"
  by (simp add: vtxSplice_def Let_def)

lemma vs_parent_vtxJoinDiff [simp]:
  "parent (vertexState (vtxJoinDiff B fc adj v w h s) i) = parent (vertexState s i)"
  by (simp add: vtxJoinDiff_def Let_def)








subsection \<open>Collapsed chains\<close>

lemma extendTri_walks_off:
  assumes m: "0 < maxOrder s"
      and p: "cPermIndices s (cOrder s 0) < 0"
      and c0: "0 \<le> chainPermIndices s 0" and c1: "0 \<le> chainPermIndices s 1"
      and ne: "chainPermIndices s 0 \<noteq> chainPermIndices s 1"
  shows "extendTri s = Some (Inl OrderIndexOutOfRange)"
proof -
  let ?fc = "cOrder s 0"
  let ?s0 = "s\<lparr>cOrderElt := 0\<rparr>"
  let ?s1 = "?s0\<lparr>cPermIndices := (cPermIndices s)(?fc := chainPermIndices s 0)\<rparr>"
  let ?s2 = "?s1\<lparr>cPermIndices := (cPermIndices ?s1)(?fc := chainPermIndices s 1)\<rparr>"
  let ?s3 = "?s2\<lparr>cPermIndices := (cPermIndices ?s2)(?fc := -1, cPairing s ?fc := -1),
               cOrderElt := -1\<rparr>"
  have "extendTriLoop ?s0 = extendTriLoop ?s1"
    using m p by (subst extendTriLoop.simps) (simp add: Let_def)
  also have "\<dots> = extendTriLoop ?s2"
    using m c0 by (subst extendTriLoop.simps) (simp add: Let_def)
  also have "\<dots> = extendTriLoop ?s3"
    using m c1 ne by (subst extendTriLoop.simps) (auto simp add: Let_def)
  also have "\<dots> = Some (Inl OrderIndexOutOfRange)"
    using m by (subst extendTriLoop.simps) simp
  finally show ?thesis by (simp add: extendTri_def)
qed

text \<open>
  Claim C3.  The searcher for a pairing with collapsed chains hands no triangulation
  to the outer callback: when \<^verbatim>\<open>modified\<close> has three tetrahedra or more, the only
  call of the outer callback in a run that returns is the closing one with the null
  pointer, whatever the inner search finds.  And when a chain link was recorded
  (\<^verbatim>\<open>maxOrder\<close> above 0, two different choices for the first position, no
  permutation chosen there yet), the first call of \<^verbatim>\<open>extendTri\<close> installs the first
  choice, then the second, then resets the face and steps \<^verbatim>\<open>orderElt\<close> down to -1,
  where the loop goes on and reads \<^verbatim>\<open>order[-1]\<close>.
\<close>

theorem C3_chain_search_forwards_nothing:
  "(\<forall>s' used. 3 \<le> modifiedSize s \<and> runSearchChain direct inner s = Some (Inr (s', used))
       \<longrightarrow> used = [NullSearcher]) \<and>
   (3 \<le> modifiedSize s \<and> 0 < maxOrder s \<and>
    cPermIndices s (cOrder s 0) < 0 \<and>
    0 \<le> chainPermIndices s 0 \<and> 0 \<le> chainPermIndices s 1 \<and>
    chainPermIndices s 0 \<noteq> chainPermIndices s 1 \<longrightarrow>
    runSearchChain direct (c # cs) s = Some (Inl OrderIndexOutOfRange))"
proof (intro conjI allI impI)
  fix s' used
  assume "3 \<le> modifiedSize s \<and> runSearchChain direct inner s = Some (Inr (s', used))"
  then show "used = [NullSearcher]"
    by (auto simp: runSearchChain_def split: option.splits sum.splits)
next
  assume a: "3 \<le> modifiedSize s \<and> 0 < maxOrder s \<and>
    cPermIndices s (cOrder s 0) < 0 \<and>
    0 \<le> chainPermIndices s 0 \<and> 0 \<le> chainPermIndices s 1 \<and>
    chainPermIndices s 0 \<noteq> chainPermIndices s 1"
  then have "extendTri s = Some (Inl OrderIndexOutOfRange)"
    by (intro extendTri_walks_off) simp_all
  with a show "runSearchChain direct (c # cs) s = Some (Inl OrderIndexOutOfRange)"
    by (simp add: runSearchChain_def)
qed

text \<open>
  On \<open>chain1\<close> with an inner search that finds one triangulation and closes with the
  null pointer: the run ends in the read of \<^verbatim>\<open>order[-1]\<close>.  Without a chain link
  (\<^verbatim>\<open>maxOrder = 0\<close>) and without calls of the inner search it returns after the one
  call with the null pointer.
\<close>

theorem C3_witness:
  "3 \<le> modifiedSize chain1 \<and> 0 < maxOrder chain1 \<and>
   cPermIndices chain1 (cOrder chain1 0) < 0 \<and>
   0 \<le> chainPermIndices chain1 0 \<and> 0 \<le> chainPermIndices chain1 1 \<and>
   chainPermIndices chain1 0 \<noteq> chainPermIndices chain1 1 \<and>
   runSearchChain [Found (1::nat), NullSearcher] [Found (1::nat), NullSearcher] chain1
     = Some (Inl OrderIndexOutOfRange) \<and>
   runSearchChain [Found (1::nat), NullSearcher] ([] :: nat ChainUse list)
       (chain1\<lparr>maxOrder := 0\<rparr>)
     = Some (Inr (chain1\<lparr>maxOrder := 0\<rparr>, [NullSearcher]))"
proof -
  have h: "3 \<le> modifiedSize chain1 \<and> 0 < maxOrder chain1 \<and>
   cPermIndices chain1 (cOrder chain1 0) < 0 \<and>
   0 \<le> chainPermIndices chain1 0 \<and> 0 \<le> chainPermIndices chain1 1 \<and>
   chainPermIndices chain1 0 \<noteq> chainPermIndices chain1 1"
    by (simp add: chain1_def)
  have e: "runSearchChain [Found (1::nat), NullSearcher] ([] :: nat ChainUse list)
       (chain1\<lparr>maxOrder := 0\<rparr>)
     = Some (Inr (chain1\<lparr>maxOrder := 0\<rparr>, [NullSearcher]))"
    by (simp add: runSearchChain_def chain1_def)
  from C3_chain_search_forwards_nothing
    [of chain1 "[Found (1::nat), NullSearcher]" "[Found (1::nat), NullSearcher]"
        "Found (1::nat)" "[NullSearcher]"] h e
  show ?thesis by simp
qed

subsection \<open>Reading a searcher back\<close>

text \<open>
  Claim C6.  The stream constructor accepts the dump \<open>badBackupDump\<close> of a
  one-tetrahedron searcher: no input error is flagged, all four vertex states are
  built, and the first one carries the backup link \<^verbatim>\<open>bdryNextOld[0] = 4\<close>, which is
  outside the index range of the four vertex states.  (The check on
  \<^verbatim>\<open>bdryNextOld[0]\<close> tests the upper bound of \<^verbatim>\<open>bdryNext[0]\<close> instead.)
\<close>

theorem C6_bad_backup_accepted:
  "map_option
     (\<lambda>r. (inputError r, bdryNextOld (rVertexState r ! 0) False, length (rVertexState r)))
     (readCompactSearcher False 1 badBackupDump) = Some (False, 4, 4)"
  by (simp add: readCompactSearcher_def badBackupDump_def fitsUnsigned_def vtxReadData_def
      edgeReadData_def asBool_def eval_nat_numeral)

end
